theory Spec2Isabelle
  imports Complex_Main "HOL-Library.Char_ord" "HOL-Library.List_Lexorder" "HOL-Library.Log_Nat"
begin

section \<open>Values of the host language\<close>

text \<open>
  A JavaScript \<^verbatim>\<open>number\<close> is an IEEE 754 double: a finite number is modelled by the
  real number it denotes, beside the three non-finite values. An arithmetic operation
  on finite numbers rounds its exact result to the nearest double, ties to even, and
  overflows to an infinity; zero carries no sign. The non-finite cases follow the
  language: anything with \<^verbatim>\<open>NaN\<close> is \<^verbatim>\<open>NaN\<close>, a non-zero finite number divided by zero
  is an infinity, zero divided by zero is \<^verbatim>\<open>NaN\<close>, and every comparison with \<^verbatim>\<open>NaN\<close>
  is false. A \<^verbatim>\<open>Decimal\<close> column read through \<^verbatim>\<open>Number(...)\<close> is the number that was
  written.
\<close>

datatype number = Num real | Infinity | NegInfinity | NaN

text \<open>The integer nearest to a real number; a tie goes to the even neighbour.\<close>

definition round_half_even :: "real \<Rightarrow> int" where
  "round_half_even q =
     (let f = \<lfloor>q\<rfloor>; d = q - of_int f
      in if d < 1 / 2 then f else if 1 / 2 < d then f + 1 else if even f then f else f + 1)"

text \<open>
  Rounding to double precision. The doubles are the multiples of \<open>2 ^ (e - 52)\<close> in
  each binade \<open>2 ^ e \<le> \<bar>x\<bar> < 2 ^ (e + 1)\<close> with \<open>- 1022 \<le> e\<close>, and the multiples of
  \<open>2 ^ - 1074\<close> below \<open>2 ^ - 1022\<close>. With \<open>m\<close> the integer part of \<open>\<bar>x\<bar> * 2 ^ 1074\<close>,
  the spacing at \<open>x\<close> is \<open>2 ^ (bitlen m - 53) / 2 ^ 1074\<close>, or \<open>1 / 2 ^ 1074\<close> when \<open>m\<close>
  has fewer than 53 bits. A result that rounds to \<open>2 ^ 1024\<close> or more in magnitude is
  an infinity.
\<close>

definition to_double :: "real \<Rightarrow> number" where
  "to_double x =
     (let m = \<lfloor>\<bar>x\<bar> * 2 ^ 1074\<rfloor>;
          ulp = 2 ^ nat (bitlen m - 53) / 2 ^ 1074;
          r = of_int (round_half_even (\<bar>x\<bar> / ulp)) * ulp
      in if 2 ^ 1024 \<le> r then (if x < 0 then NegInfinity else Infinity)
         else Num (if x < 0 then - r else r))"

fun js_neg :: "number \<Rightarrow> number" where
  "js_neg (Num a) = Num (- a)"
| "js_neg Infinity = NegInfinity"
| "js_neg NegInfinity = Infinity"
| "js_neg NaN = NaN"

fun js_add :: "number \<Rightarrow> number \<Rightarrow> number" where
  "js_add NaN _ = NaN"
| "js_add _ NaN = NaN"
| "js_add (Num a) (Num b) = to_double (a + b)"
| "js_add Infinity NegInfinity = NaN"
| "js_add NegInfinity Infinity = NaN"
| "js_add Infinity _ = Infinity"
| "js_add _ Infinity = Infinity"
| "js_add NegInfinity _ = NegInfinity"
| "js_add _ NegInfinity = NegInfinity"

definition js_sub :: "number \<Rightarrow> number \<Rightarrow> number" where
  "js_sub a b = js_add a (js_neg b)"

text \<open>The sign of a number: \<open>None\<close> for \<^verbatim>\<open>NaN\<close>, otherwise \<open>-1\<close>, \<open>0\<close> or \<open>1\<close>.\<close>

fun js_sign :: "number \<Rightarrow> int option" where
  "js_sign NaN = None"
| "js_sign Infinity = Some 1"
| "js_sign NegInfinity = Some (- 1)"
| "js_sign (Num a) = Some (if a < 0 then - 1 else if a = 0 then 0 else 1)"

definition signed_infinity :: "int \<Rightarrow> number" where
  "signed_infinity sg = (if sg = 0 then NaN else if sg < 0 then NegInfinity else Infinity)"

fun js_mul :: "number \<Rightarrow> number \<Rightarrow> number" where
  "js_mul (Num a) (Num b) = to_double (a * b)"
| "js_mul a b =
     (case (js_sign a, js_sign b) of
        (Some x, Some y) \<Rightarrow> signed_infinity (x * y)
      | _ \<Rightarrow> NaN)"

fun is_finite :: "number \<Rightarrow> bool" where
  "is_finite (Num a) = True"
| "is_finite _ = False"

fun js_div :: "number \<Rightarrow> number \<Rightarrow> number" where
  "js_div (Num a) (Num b) =
     (if b = 0 then signed_infinity (if a < 0 then - 1 else if a = 0 then 0 else 1)
      else to_double (a / b))"
| "js_div a b =
     (case (js_sign a, js_sign b) of
        (Some x, Some y) \<Rightarrow>
          (if is_finite a then Num 0
           else if is_finite b then signed_infinity (if y < 0 then - x else x)
           else NaN)
      | _ \<Rightarrow> NaN)"

fun js_ge :: "number \<Rightarrow> number \<Rightarrow> bool" where
  "js_ge NaN _ = False"
| "js_ge _ NaN = False"
| "js_ge (Num a) (Num b) = (b \<le> a)"
| "js_ge Infinity _ = True"
| "js_ge _ NegInfinity = True"
| "js_ge _ _ = False"

fun js_gt :: "number \<Rightarrow> number \<Rightarrow> bool" where
  "js_gt NaN _ = False"
| "js_gt _ NaN = False"
| "js_gt (Num a) (Num b) = (b < a)"
| "js_gt Infinity Infinity = False"
| "js_gt NegInfinity NegInfinity = False"
| "js_gt Infinity _ = True"
| "js_gt _ NegInfinity = True"
| "js_gt _ _ = False"

text \<open>A \<^verbatim>\<open>Date\<close> is its time value; an identifier is an opaque string.\<close>

type_synonym date = int
type_synonym ident = string

text \<open>The value of an optional input field that has a default.\<close>

definition withDefault :: "'a \<Rightarrow> 'a option \<Rightarrow> 'a" where
  "withDefault d x = (case x of None \<Rightarrow> d | Some v \<Rightarrow> v)"

text \<open>
  Prisma skips the fields of \<^verbatim>\<open>data\<close> that are \<^verbatim>\<open>undefined\<close>: an optional column
  keeps its value unless a new one is provided.
\<close>

definition merge :: "'a option \<Rightarrow> 'a option \<Rightarrow> 'a option" where
  "merge new old = (case new of None \<Rightarrow> old | Some v \<Rightarrow> Some v)"

section \<open>Input validation\<close>

text \<open>
  The checks of the schemas in \<^verbatim>\<open>types/index.ts\<close>. \<^verbatim>\<open>z.number()\<close> refuses
  \<^verbatim>\<open>NaN\<close>; \<^verbatim>\<open>positive\<close> and \<^verbatim>\<open>nonnegative\<close> compare with zero. The identifier
  format is the pattern of \<^verbatim>\<open>validateCuid\<close>, \<^verbatim>\<open>/^c[^\s-]{8,}$/\<close>, with the ASCII
  white space characters for \<^verbatim>\<open>\s\<close>.
\<close>

definition positive :: "number \<Rightarrow> bool" where
  "positive n = js_gt n (Num 0)"

definition nonnegative :: "number \<Rightarrow> bool" where
  "nonnegative n = js_ge n (Num 0)"

definition opt :: "('a \<Rightarrow> bool) \<Rightarrow> 'a option \<Rightarrow> bool" where
  "opt chk x = (case x of None \<Rightarrow> True | Some v \<Rightarrow> chk v)"

definition whitespace :: "char \<Rightarrow> bool" where
  "whitespace c = (c \<in> set [CHR '' '', CHR 0x09, CHR 0x0A, CHR 0x0B, CHR 0x0C, CHR 0x0D])"

definition cuid :: "string \<Rightarrow> bool" where
  "cuid s = (case s of
       [] \<Rightarrow> False
     | c # r \<Rightarrow> c = CHR ''c'' \<and> 8 \<le> length r \<and> list_all (\<lambda>x. \<not> whitespace x \<and> x \<noteq> CHR ''-'') r)"

section \<open>Data model\<close>

datatype PositionType = LONG | SHORT
datatype PositionStatus = OPEN | CLOSED | PARTIAL
datatype TransactionType = BUY | SELL | DIVIDEND | SPLIT | BONUS

text \<open>
  Rows of the tables. Field names carry a prefix for the table, since a field name is
  a constant of the theory: \<open>pos_\<close> for a position, \<open>tx_\<close> for a transaction.
  The time stamps \<^verbatim>\<open>createdAt\<close> and \<^verbatim>\<open>updatedAt\<close> of positions and transactions,
  which none of the operations below reads, are left out.
\<close>

record Position =
  pos_id :: ident
  pos_userId :: ident
  pos_stockId :: ident
  pos_status :: PositionStatus
  pos_positionType :: PositionType
  pos_openDate :: date
  pos_entryPrice :: number
  pos_quantity :: int
  pos_buyFees :: number
  pos_totalBuyValue :: number
  pos_capitalAllocated :: number
  pos_closeDate :: "date option"
  pos_exitPrice :: "number option"
  pos_totalSellValue :: "number option"
  pos_sellFees :: "number option"
  pos_realizedPnL :: "number option"
  pos_returnPercentage :: "number option"
  pos_stopLossPrice :: "number option"
  pos_takeProfitPrice :: "number option"
  pos_riskAmount :: "number option"
  pos_riskPercentage :: "number option"
  pos_openReason :: string
  pos_strategy :: "string option"
  pos_setupType :: "string option"
  pos_timeframe :: "string option"
  pos_tags :: "string list"
  pos_notes :: "string option"
  pos_tradeGrade :: "string option"
  pos_lessonsLearned :: "string option"

record Transaction =
  tx_id :: ident
  tx_positionId :: ident
  tx_type :: TransactionType
  tx_date :: date
  tx_quantity :: int
  tx_price :: number
  tx_totalValue :: number
  tx_fees :: number
  tx_executionTime :: "date option"
  tx_brokerRef :: "string option"
  tx_orderType :: "string option"
  tx_notes :: "string option"

record User =
  usr_id :: ident
  usr_email :: string
  usr_name :: "string option"
  usr_createdAt :: date
  usr_updatedAt :: date

record Exchange =
  exc_id :: ident
  exc_code :: string
  exc_name :: string
  exc_country :: string
  exc_timezone :: string
  exc_currency :: string
  exc_isActive :: bool

record Stock =
  stk_id :: ident
  stk_symbol :: string
  stk_name :: string
  stk_sector :: "string option"
  stk_industry :: "string option"
  stk_marketCap :: "number option"
  stk_exchangeId :: ident
  stk_isActive :: bool

record PriceHistory =
  ph_stockId :: ident
  ph_date :: date
  ph_open :: number
  ph_high :: number
  ph_low :: number
  ph_close :: number
  ph_volume :: "number option"

record Watchlist =
  wl_id :: ident
  wl_userId :: ident
  wl_stockId :: ident
  wl_name :: "string option"
  wl_notes :: "string option"
  wl_targetPrice :: "number option"
  wl_createdAt :: date

section \<open>The persistence collaborator\<close>

text \<open>
  The database is a record of tables, each a list of rows. The operations of the Prisma
  client that the handlers call are functions on a table: a unique lookup returns the
  first row that matches, \<^verbatim>\<open>update\<close> and \<^verbatim>\<open>delete\<close> act on that row and raise
  \<^verbatim>\<open>P2025\<close> when there is none, \<^verbatim>\<open>create\<close> appends a row and raises \<^verbatim>\<open>P2002\<close>
  when the key is taken. The identifier of a new row, which the database generates, is
  an argument of the operation that creates it.
\<close>

record store =
  users :: "User list"
  exchanges :: "Exchange list"
  stocks :: "Stock list"
  priceHistory :: "PriceHistory list"
  positions :: "Position list"
  transactions :: "Transaction list"
  watchlist :: "Watchlist list"

text \<open>
  \<open>Error msg\<close> is \<^verbatim>\<open>throw new Error(msg)\<close>; \<open>BAD_REQUEST\<close> is the failure of a
  procedure whose input does not pass its schema; \<open>P2002\<close> and \<open>P2025\<close> are the
  error codes of the database client that \<^verbatim>\<open>errorHandler\<close> tells apart, and
  \<open>P2003\<close> is its code for a foreign key that refers to no row.
\<close>

datatype error = Error string | BAD_REQUEST | P2002 | P2003 | P2025

definition findUnique :: "('a \<Rightarrow> bool) \<Rightarrow> 'a list \<Rightarrow> 'a option" where
  "findUnique P rows = find P rows"

definition count_where :: "('a \<Rightarrow> bool) \<Rightarrow> 'a list \<Rightarrow> nat" where
  "count_where P rows = length (filter P rows)"

fun update_row :: "('a \<Rightarrow> bool) \<Rightarrow> ('a \<Rightarrow> 'a) \<Rightarrow> 'a list \<Rightarrow> 'a list" where
  "update_row P f [] = []"
| "update_row P f (x # xs) = (if P x then f x # xs else x # update_row P f xs)"

fun delete_row :: "('a \<Rightarrow> bool) \<Rightarrow> 'a list \<Rightarrow> 'a list" where
  "delete_row P [] = []"
| "delete_row P (x # xs) = (if P x then xs else x # delete_row P xs)"

definition deleteMany :: "('a \<Rightarrow> bool) \<Rightarrow> 'a list \<Rightarrow> 'a list" where
  "deleteMany P rows = filter (\<lambda>x. \<not> P x) rows"

text \<open>
  A procedure runs its handler on an input that passes the schema and fails with
  \<open>BAD_REQUEST\<close> otherwise. A handler returns its result, or the error it raised,
  together with the database as it has left it.
\<close>

type_synonym 'r outcome = "(error + 'r) \<times> store"

definition "procedure" :: "('i \<Rightarrow> bool) \<Rightarrow> ('i \<Rightarrow> store \<Rightarrow> 'r outcome) \<Rightarrow> 'i \<Rightarrow> store \<Rightarrow> 'r outcome" where
  "procedure schema handler inp s = (if schema inp then handler inp s else (Inl BAD_REQUEST, s))"

section \<open>Position router\<close>

subsection \<open>Inputs\<close>

record CreatePositionInput =
  cp_userId :: ident
  cp_stockId :: ident
  cp_openDate :: date
  cp_entryPrice :: number
  cp_quantity :: int
  cp_positionType :: "PositionType option"
  cp_buyFees :: "number option"
  cp_stopLossPrice :: "number option"
  cp_takeProfitPrice :: "number option"
  cp_riskAmount :: "number option"
  cp_riskPercentage :: "number option"
  cp_openReason :: string
  cp_strategy :: "string option"
  cp_setupType :: "string option"
  cp_timeframe :: "string option"
  cp_tags :: "string list option"
  cp_notes :: "string option"

definition CreatePositionSchema :: "CreatePositionInput \<Rightarrow> bool" where
  "CreatePositionSchema i \<longleftrightarrow>
     cuid (cp_userId i) \<and> cuid (cp_stockId i) \<and>
     positive (cp_entryPrice i) \<and>
     0 < cp_quantity i \<and>
     opt nonnegative (cp_buyFees i) \<and>
     opt positive (cp_stopLossPrice i) \<and>
     opt positive (cp_takeProfitPrice i) \<and>
     opt positive (cp_riskAmount i) \<and>
     opt positive (cp_riskPercentage i) \<and>
     1 \<le> length (cp_openReason i)"

record ClosePositionInput =
  cl_positionId :: ident
  cl_closeDate :: date
  cl_exitPrice :: number
  cl_sellFees :: "number option"
  cl_tradeGrade :: "string option"
  cl_lessonsLearned :: "string option"

definition ClosePositionSchema :: "ClosePositionInput \<Rightarrow> bool" where
  "ClosePositionSchema i \<longleftrightarrow>
     cuid (cl_positionId i) \<and> positive (cl_exitPrice i) \<and> opt nonnegative (cl_sellFees i)"

record UpdatePositionInput =
  up_id :: ident
  up_stopLossPrice :: "number option"
  up_takeProfitPrice :: "number option"
  up_strategy :: "string option"
  up_setupType :: "string option"
  up_timeframe :: "string option"
  up_tags :: "string list option"
  up_notes :: "string option"

definition UpdatePositionSchema :: "UpdatePositionInput \<Rightarrow> bool" where
  "UpdatePositionSchema i \<longleftrightarrow>
     cuid (up_id i) \<and> opt positive (up_stopLossPrice i) \<and> opt positive (up_takeProfitPrice i)"

subsection \<open>create\<close>

definition new_position :: "ident \<Rightarrow> CreatePositionInput \<Rightarrow> number \<Rightarrow> number \<Rightarrow> Position" where
  "new_position newId i totalBuyValue capitalAllocated =
     \<lparr> pos_id = newId,
       pos_userId = cp_userId i,
       pos_stockId = cp_stockId i,
       pos_status = OPEN,
       pos_positionType = withDefault LONG (cp_positionType i),
       pos_openDate = cp_openDate i,
       pos_entryPrice = cp_entryPrice i,
       pos_quantity = cp_quantity i,
       pos_buyFees = withDefault (Num 0) (cp_buyFees i),
       pos_totalBuyValue = totalBuyValue,
       pos_capitalAllocated = capitalAllocated,
       pos_closeDate = None,
       pos_exitPrice = None,
       pos_totalSellValue = None,
       pos_sellFees = None,
       pos_realizedPnL = None,
       pos_returnPercentage = None,
       pos_stopLossPrice = cp_stopLossPrice i,
       pos_takeProfitPrice = cp_takeProfitPrice i,
       pos_riskAmount = cp_riskAmount i,
       pos_riskPercentage = cp_riskPercentage i,
       pos_openReason = cp_openReason i,
       pos_strategy = cp_strategy i,
       pos_setupType = cp_setupType i,
       pos_timeframe = cp_timeframe i,
       pos_tags = withDefault [] (cp_tags i),
       pos_notes = cp_notes i,
       pos_tradeGrade = None,
       pos_lessonsLearned = None \<rparr>"

definition new_transaction ::
  "ident \<Rightarrow> ident \<Rightarrow> TransactionType \<Rightarrow> date \<Rightarrow> int \<Rightarrow> number \<Rightarrow> number \<Rightarrow> number \<Rightarrow> Transaction" where
  "new_transaction newId positionId ty d quantity price totalValue fees =
     \<lparr> tx_id = newId,
       tx_positionId = positionId,
       tx_type = ty,
       tx_date = d,
       tx_quantity = quantity,
       tx_price = price,
       tx_totalValue = totalValue,
       tx_fees = fees,
       tx_executionTime = None,
       tx_brokerRef = None,
       tx_orderType = None,
       tx_notes = None \<rparr>"

text \<open>
  Modelled from the spec: the database schema is not among the sources. In the data
  model of the specification the identifier is the key of a row, the user and the stock
  of a position are foreign keys, and so is the position of a transaction. Creating a
  row whose key is taken fails with \<open>P2002\<close>, and creating a row whose foreign key
  refers to no row fails with \<open>P2003\<close>.
\<close>

definition position_create_row :: "Position \<Rightarrow> store \<Rightarrow> Position outcome" where
  "position_create_row p s =
     (if findUnique (\<lambda>q. pos_id q = pos_id p) (positions s) \<noteq> None then (Inl P2002, s)
      else if findUnique (\<lambda>u. usr_id u = pos_userId p) (users s) = None \<or>
              findUnique (\<lambda>k. stk_id k = pos_stockId p) (stocks s) = None then (Inl P2003, s)
      else (Inr p, s\<lparr>positions := positions s @ [p]\<rparr>))"

definition transaction_create_row :: "Transaction \<Rightarrow> store \<Rightarrow> Transaction outcome" where
  "transaction_create_row t s =
     (if findUnique (\<lambda>u. tx_id u = tx_id t) (transactions s) \<noteq> None then (Inl P2002, s)
      else if findUnique (\<lambda>q. pos_id q = tx_positionId t) (positions s) = None then (Inl P2003, s)
      else (Inr t, s\<lparr>transactions := transactions s @ [t]\<rparr>))"

definition position_create_handler ::
  "ident \<Rightarrow> ident \<Rightarrow> CreatePositionInput \<Rightarrow> store \<Rightarrow> Position outcome" where
  "position_create_handler newId newTxId i s =
     (let quantity = cp_quantity i;
          entryPrice = cp_entryPrice i;
          buyFees = withDefault (Num 0) (cp_buyFees i);
          totalBuyValue = js_mul (Num (of_int quantity)) entryPrice;
          capitalAllocated = js_add totalBuyValue buyFees
      in case position_create_row (new_position newId i totalBuyValue capitalAllocated) s of
           (Inl e, s1) \<Rightarrow> (Inl e, s1)
         | (Inr position, s1) \<Rightarrow>
             (case transaction_create_row
                     (new_transaction newTxId (pos_id position) BUY (cp_openDate i)
                        (cp_quantity i) (cp_entryPrice i) totalBuyValue
                        (withDefault (Num 0) (cp_buyFees i))) s1 of
                (Inl e, s2) \<Rightarrow> (Inl e, s2)
              | (Inr t, s2) \<Rightarrow> (Inr position, s2)))"

definition position_create :: "ident \<Rightarrow> ident \<Rightarrow> CreatePositionInput \<Rightarrow> store \<Rightarrow> Position outcome" where
  "position_create newId newTxId = procedure CreatePositionSchema (position_create_handler newId newTxId)"

subsection \<open>close\<close>

definition position_update_row ::
  "ident \<Rightarrow> (Position \<Rightarrow> Position) \<Rightarrow> store \<Rightarrow> Position outcome" where
  "position_update_row i f s =
     (case findUnique (\<lambda>q. pos_id q = i) (positions s) of
        None \<Rightarrow> (Inl P2025, s)
      | Some p \<Rightarrow> (Inr (f p), s\<lparr>positions := update_row (\<lambda>q. pos_id q = i) f (positions s)\<rparr>))"

definition position_close_handler :: "ident \<Rightarrow> ClosePositionInput \<Rightarrow> store \<Rightarrow> Position outcome" where
  "position_close_handler newTxId i s =
     (let positionId = cl_positionId i;
          closeDate = cl_closeDate i;
          exitPrice = cl_exitPrice i;
          sellFees = withDefault (Num 0) (cl_sellFees i)
      in case findUnique (\<lambda>q. pos_id q = positionId) (positions s) of
           None \<Rightarrow> (Inl (Error ''Position not found''), s)
         | Some position \<Rightarrow>
             (if pos_status position \<noteq> OPEN then (Inl (Error ''Position is not open''), s)
              else
                (let totalSellValue = js_mul (Num (of_int (pos_quantity position))) exitPrice;
                     realizedPnL =
                       js_sub (js_sub (js_sub totalSellValue (pos_totalBuyValue position))
                         (pos_buyFees position)) sellFees;
                     returnPercentage =
                       js_mul (js_div realizedPnL (pos_capitalAllocated position)) (Num 100)
                 in (case position_update_row positionId
                      (\<lambda>p. p\<lparr> pos_status := CLOSED,
                              pos_closeDate := Some closeDate,
                              pos_exitPrice := Some exitPrice,
                              pos_totalSellValue := Some totalSellValue,
                              pos_sellFees := Some sellFees,
                              pos_realizedPnL := Some realizedPnL,
                              pos_returnPercentage := Some returnPercentage,
                              pos_tradeGrade := merge (cl_tradeGrade i) (pos_tradeGrade p),
                              pos_lessonsLearned := merge (cl_lessonsLearned i) (pos_lessonsLearned p) \<rparr>) s of
                      (Inl e, s1) \<Rightarrow> (Inl e, s1)
                    | (Inr updatedPosition, s1) \<Rightarrow>
                        (case transaction_create_row
                                (new_transaction newTxId positionId SELL closeDate
                                   (pos_quantity position) exitPrice totalSellValue sellFees) s1 of
                           (Inl e, s2) \<Rightarrow> (Inl e, s2)
                         | (Inr t, s2) \<Rightarrow> (Inr updatedPosition, s2))))))"

definition position_close :: "ident \<Rightarrow> ClosePositionInput \<Rightarrow> store \<Rightarrow> Position outcome" where
  "position_close newTxId = procedure ClosePositionSchema (position_close_handler newTxId)"

subsection \<open>update and delete\<close>

definition position_update_handler :: "UpdatePositionInput \<Rightarrow> store \<Rightarrow> Position outcome" where
  "position_update_handler i s =
     position_update_row (up_id i)
       (\<lambda>p. p\<lparr> pos_stopLossPrice := merge (up_stopLossPrice i) (pos_stopLossPrice p),
               pos_takeProfitPrice := merge (up_takeProfitPrice i) (pos_takeProfitPrice p),
               pos_strategy := merge (up_strategy i) (pos_strategy p),
               pos_setupType := merge (up_setupType i) (pos_setupType p),
               pos_timeframe := merge (up_timeframe i) (pos_timeframe p),
               pos_tags := withDefault (pos_tags p) (up_tags i),
               pos_notes := merge (up_notes i) (pos_notes p) \<rparr>) s"

definition position_update :: "UpdatePositionInput \<Rightarrow> store \<Rightarrow> Position outcome" where
  "position_update = procedure UpdatePositionSchema position_update_handler"

definition position_delete_handler :: "ident \<Rightarrow> store \<Rightarrow> bool outcome" where
  "position_delete_handler i s =
     (let transactionCount = count_where (\<lambda>t. tx_positionId t = i) (transactions s)
      in if transactionCount > 0
         then (Inl (Error ''Cannot delete position with existing transactions''), s)
         else if findUnique (\<lambda>q. pos_id q = i) (positions s) = None then (Inl P2025, s)
         else (Inr True, s\<lparr>positions := delete_row (\<lambda>q. pos_id q = i) (positions s)\<rparr>))"

definition position_delete :: "ident \<Rightarrow> store \<Rightarrow> bool outcome" where
  "position_delete = procedure cuid position_delete_handler"

subsection \<open>list\<close>

text \<open>
  \<^verbatim>\<open>findMany\<close> with \<^verbatim>\<open>where\<close>, \<^verbatim>\<open>orderBy\<close>, \<^verbatim>\<open>skip\<close> and \<^verbatim>\<open>take\<close>:
  the matching rows are put in order, \<^verbatim>\<open>skip\<close> rows are dropped and at most
  \<^verbatim>\<open>take\<close> rows are returned. Rows with equal keys keep the order of the table.
  The related rows that \<^verbatim>\<open>include\<close> attaches to a result are not part of the model.
\<close>

definition desc :: "('a \<Rightarrow> int) \<Rightarrow> 'a list \<Rightarrow> 'a list" where
  "desc key rows = sort_key (\<lambda>r. - key r) rows"

definition page :: "int \<Rightarrow> int \<Rightarrow> 'a list \<Rightarrow> 'a list" where
  "page limit offset rows = take (nat limit) (drop (nat offset) rows)"

text \<open>A limit is an integer from 1 to its maximum, an offset a non-negative integer.\<close>

definition limit_ok :: "int \<Rightarrow> int option \<Rightarrow> bool" where
  "limit_ok mx l = opt (\<lambda>n. 0 < n \<and> n \<le> mx) l"

definition offset_ok :: "int option \<Rightarrow> bool" where
  "offset_ok off = opt (\<lambda>n. 0 \<le> n) off"

record 'a listing =
  items :: "'a list"
  total :: nat
  hasMore :: bool

record GetPositionsInput =
  gp_userId :: ident
  gp_status :: "PositionStatus option"
  gp_stockId :: "ident option"
  gp_limit :: "int option"
  gp_offset :: "int option"

definition GetPositionsSchema :: "GetPositionsInput \<Rightarrow> bool" where
  "GetPositionsSchema i \<longleftrightarrow>
     cuid (gp_userId i) \<and> opt cuid (gp_stockId i) \<and> limit_ok 100 (gp_limit i) \<and> offset_ok (gp_offset i)"

text \<open>
  The \<^verbatim>\<open>where\<close> object of a list handler: a condition is added when the input field
  is truthy. A status or type is a non-empty string and a date is an object, so they are
  truthy whenever they are present; a string is truthy when it is not empty.
\<close>

definition when_string :: "string option \<Rightarrow> (string \<Rightarrow> bool) \<Rightarrow> bool" where
  "when_string x cond = (case x of None \<Rightarrow> True | Some v \<Rightarrow> if v \<noteq> [] then cond v else True)"

definition when_present :: "'a option \<Rightarrow> ('a \<Rightarrow> bool) \<Rightarrow> bool" where
  "when_present x cond = (case x of None \<Rightarrow> True | Some v \<Rightarrow> cond v)"

definition position_where :: "GetPositionsInput \<Rightarrow> Position \<Rightarrow> bool" where
  "position_where i p \<longleftrightarrow>
     pos_userId p = gp_userId i \<and>
     when_present (gp_status i) (\<lambda>st. pos_status p = st) \<and>
     when_string (gp_stockId i) (\<lambda>k. pos_stockId p = k)"

definition position_list_handler :: "GetPositionsInput \<Rightarrow> store \<Rightarrow> Position listing outcome" where
  "position_list_handler i s =
     (let limit = withDefault 50 (gp_limit i);
          offset = withDefault 0 (gp_offset i);
          positions = page limit offset (desc pos_openDate (filter (position_where i) (positions s)));
          total = count_where (position_where i) (store.positions s)
      in (Inr \<lparr> items = positions, total = total, hasMore = (offset + limit < int total) \<rparr>, s))"

definition position_list :: "GetPositionsInput \<Rightarrow> store \<Rightarrow> Position listing outcome" where
  "position_list = procedure GetPositionsSchema position_list_handler"

section \<open>Transaction router\<close>

record UpdateTransactionInput =
  ut_id :: ident
  ut_date :: "date option"
  ut_quantity :: "int option"
  ut_price :: "number option"
  ut_fees :: "number option"
  ut_executionTime :: "date option"
  ut_brokerRef :: "string option"
  ut_orderType :: "string option"
  ut_notes :: "string option"

definition UpdateTransactionSchema :: "UpdateTransactionInput \<Rightarrow> bool" where
  "UpdateTransactionSchema i \<longleftrightarrow>
     cuid (ut_id i) \<and> opt (\<lambda>q. 0 < q) (ut_quantity i) \<and> opt positive (ut_price i) \<and>
     opt nonnegative (ut_fees i)"

definition transaction_update_row ::
  "ident \<Rightarrow> (Transaction \<Rightarrow> Transaction) \<Rightarrow> store \<Rightarrow> Transaction outcome" where
  "transaction_update_row i f s =
     (case findUnique (\<lambda>t. tx_id t = i) (transactions s) of
        None \<Rightarrow> (Inl P2025, s)
      | Some t \<Rightarrow> (Inr (f t), s\<lparr>transactions := update_row (\<lambda>t. tx_id t = i) f (transactions s)\<rparr>))"

definition otherUpdates :: "UpdateTransactionInput \<Rightarrow> Transaction \<Rightarrow> Transaction" where
  "otherUpdates i t =
     t\<lparr> tx_date := withDefault (tx_date t) (ut_date i),
        tx_fees := withDefault (tx_fees t) (ut_fees i),
        tx_executionTime := merge (ut_executionTime i) (tx_executionTime t),
        tx_brokerRef := merge (ut_brokerRef i) (tx_brokerRef t),
        tx_orderType := merge (ut_orderType i) (tx_orderType t),
        tx_notes := merge (ut_notes i) (tx_notes t) \<rparr>"

definition transaction_update_handler :: "UpdateTransactionInput \<Rightarrow> store \<Rightarrow> Transaction outcome" where
  "transaction_update_handler i s =
     (let quantity = ut_quantity i; price = ut_price i
      in if quantity \<noteq> None \<or> price \<noteq> None then
           (case findUnique (\<lambda>t. tx_id t = ut_id i) (transactions s) of
              None \<Rightarrow> (Inl (Error ''Transaction not found''), s)
            | Some currentTransaction \<Rightarrow>
                (let newQuantity = withDefault (tx_quantity currentTransaction) quantity;
                     newPrice = withDefault (tx_price currentTransaction) price;
                     totalValue = js_mul (Num (of_int newQuantity)) newPrice
                 in transaction_update_row (ut_id i)
                      (\<lambda>t. (otherUpdates i t)
                              \<lparr> tx_quantity := withDefault (tx_quantity t) quantity,
                                tx_price := withDefault (tx_price t) price,
                                tx_totalValue := totalValue \<rparr>) s))
         else transaction_update_row (ut_id i) (otherUpdates i) s)"

definition transaction_update :: "UpdateTransactionInput \<Rightarrow> store \<Rightarrow> Transaction outcome" where
  "transaction_update = procedure UpdateTransactionSchema transaction_update_handler"

record GetTransactionsInput =
  gt_positionId :: "ident option"
  gt_userId :: "ident option"
  gt_type :: "TransactionType option"
  gt_startDate :: "date option"
  gt_endDate :: "date option"
  gt_limit :: "int option"
  gt_offset :: "int option"

definition GetTransactionsSchema :: "GetTransactionsInput \<Rightarrow> bool" where
  "GetTransactionsSchema i \<longleftrightarrow>
     opt cuid (gt_positionId i) \<and> opt cuid (gt_userId i) \<and>
     limit_ok 100 (gt_limit i) \<and> offset_ok (gt_offset i)"

text \<open>The relation filter \<^verbatim>\<open>position: { userId }\<close>: the owning position is of that user.\<close>

definition owner_is :: "store \<Rightarrow> ident \<Rightarrow> Transaction \<Rightarrow> bool" where
  "owner_is s u t =
     (case findUnique (\<lambda>q. pos_id q = tx_positionId t) (positions s) of
        None \<Rightarrow> False
      | Some q \<Rightarrow> pos_userId q = u)"

definition transaction_where :: "store \<Rightarrow> GetTransactionsInput \<Rightarrow> Transaction \<Rightarrow> bool" where
  "transaction_where s i t \<longleftrightarrow>
     when_string (gt_positionId i) (\<lambda>k. tx_positionId t = k) \<and>
     when_string (gt_userId i) (\<lambda>u. owner_is s u t) \<and>
     when_present (gt_type i) (\<lambda>ty. tx_type t = ty) \<and>
     when_present (gt_startDate i) (\<lambda>d. d \<le> tx_date t) \<and>
     when_present (gt_endDate i) (\<lambda>d. tx_date t \<le> d)"

definition transaction_list_handler ::
  "GetTransactionsInput \<Rightarrow> store \<Rightarrow> Transaction listing outcome" where
  "transaction_list_handler i s =
     (let limit = withDefault 50 (gt_limit i);
          offset = withDefault 0 (gt_offset i);
          transactions = page limit offset (desc tx_date (filter (transaction_where s i) (transactions s)));
          total = count_where (transaction_where s i) (store.transactions s)
      in (Inr \<lparr> items = transactions, total = total, hasMore = (offset + limit < int total) \<rparr>, s))"

definition transaction_list :: "GetTransactionsInput \<Rightarrow> store \<Rightarrow> Transaction listing outcome" where
  "transaction_list = procedure GetTransactionsSchema transaction_list_handler"

section \<open>User router\<close>

record ListInput =
  li_limit :: "int option"
  li_offset :: "int option"

definition ListUsersSchema :: "ListInput \<Rightarrow> bool" where
  "ListUsersSchema i \<longleftrightarrow> limit_ok 100 (li_limit i) \<and> offset_ok (li_offset i)"

definition user_list_handler :: "ListInput \<Rightarrow> store \<Rightarrow> User listing outcome" where
  "user_list_handler i s =
     (let limit = withDefault 50 (li_limit i);
          offset = withDefault 0 (li_offset i);
          users = page limit offset (desc usr_createdAt (users s));
          total = length (store.users s)
      in (Inr \<lparr> items = users, total = total, hasMore = (offset + limit < int total) \<rparr>, s))"

definition user_list :: "ListInput \<Rightarrow> store \<Rightarrow> User listing outcome" where
  "user_list = procedure ListUsersSchema user_list_handler"

definition user_delete_handler :: "ident \<Rightarrow> store \<Rightarrow> bool outcome" where
  "user_delete_handler i s =
     (let positionCount = count_where (\<lambda>p. pos_userId p = i) (positions s)
      in if positionCount > 0
         then (Inl (Error ''Cannot delete user with existing positions''), s)
         else if findUnique (\<lambda>u. usr_id u = i) (users s) = None then (Inl P2025, s)
         else (Inr True, s\<lparr>users := delete_row (\<lambda>u. usr_id u = i) (users s)\<rparr>))"

definition user_delete :: "ident \<Rightarrow> store \<Rightarrow> bool outcome" where
  "user_delete = procedure cuid user_delete_handler"

text \<open>
  The summary block of the portfolio. \<^verbatim>\<open>reduce\<close> folds from the left, starting from
  zero. The columns are \<^verbatim>\<open>Decimal\<close> objects or \<^verbatim>\<open>null\<close>, so \<^verbatim>\<open>p.realizedPnL || 0\<close>
  is zero exactly when the column is \<^verbatim>\<open>null\<close>.
\<close>

record summary =
  totalOpenPositions :: nat
  totalInvested :: number
  totalValue :: number
  totalRealizedPnL :: number
  avgReturn :: number
  totalClosedPositions :: nat

definition reduce_sum :: "('a \<Rightarrow> number) \<Rightarrow> 'a list \<Rightarrow> number" where
  "reduce_sum f rows = foldl (\<lambda>sum p. js_add sum (f p)) (Num 0) rows"

definition portfolio_summary :: "ident \<Rightarrow> store \<Rightarrow> summary" where
  "portfolio_summary userId s =
     (let openPositions = filter (\<lambda>p. pos_userId p = userId \<and> pos_status p = OPEN) (positions s);
          closedPositions = filter (\<lambda>p. pos_userId p = userId \<and> pos_status p = CLOSED) (positions s)
      in \<lparr> totalOpenPositions = length openPositions,
           totalInvested = reduce_sum pos_capitalAllocated openPositions,
           totalValue = reduce_sum pos_totalBuyValue openPositions,
           totalRealizedPnL =
             reduce_sum (\<lambda>p. withDefault (Num 0) (pos_realizedPnL p)) closedPositions,
           avgReturn =
             (if length closedPositions > 0
              then js_div (reduce_sum (\<lambda>p. withDefault (Num 0) (pos_returnPercentage p)) closedPositions)
                     (Num (of_nat (length closedPositions)))
              else Num 0),
           totalClosedPositions = length closedPositions \<rparr>)"

definition getPortfolioSummary :: "ident \<Rightarrow> store \<Rightarrow> summary outcome" where
  "getPortfolioSummary = procedure cuid (\<lambda>userId s. (Inr (portfolio_summary userId s), s))"

section \<open>REST controllers\<close>

text \<open>
  A response is its status code and the fields of the JSON body that the handlers set.
  \<^verbatim>\<open>validateCuid\<close> lets an empty value through and answers 400 to a value that does
  not match the pattern; an error thrown by a handler reaches \<^verbatim>\<open>errorHandler\<close>,
  which answers 404 to \<open>P2025\<close>.
\<close>

record 'a response =
  res_status :: nat
  res_success :: "bool option"
  res_error :: "string option"
  res_message :: "string option"
  res_data :: "'a option"

definition invalid_id_response :: "string \<Rightarrow> 'a response" where
  "invalid_id_response field =
     \<lparr> res_status = 400, res_success = None, res_error = Some ''Invalid ID format'',
       res_message = Some (field @ '' must be a valid CUID''), res_data = None \<rparr>"

definition not_found_response :: "'a response" where
  "not_found_response =
     \<lparr> res_status = 404, res_success = None, res_error = Some ''Not Found'',
       res_message = Some ''The requested record was not found'', res_data = None \<rparr>"

definition validateCuid ::
  "string \<Rightarrow> (ident \<Rightarrow> store \<Rightarrow> 'a response \<times> store) \<Rightarrow> ident \<Rightarrow> store \<Rightarrow> 'a response \<times> store" where
  "validateCuid field next v s =
     (if v \<noteq> [] \<and> \<not> cuid v then (invalid_id_response field, s) else next v s)"

definition rest_user_delete :: "ident \<Rightarrow> store \<Rightarrow> unit response \<times> store" where
  "rest_user_delete =
     validateCuid ''id'' (\<lambda>i s.
       let positionCount = count_where (\<lambda>p. pos_userId p = i) (positions s)
       in if positionCount > 0
          then (\<lparr> res_status = 400, res_success = Some False,
                   res_error = Some ''Cannot delete user with existing positions'',
                   res_message = None, res_data = None \<rparr>, s)
          else if findUnique (\<lambda>u. usr_id u = i) (users s) = None then (not_found_response, s)
          else (\<lparr> res_status = 200, res_success = Some True, res_error = None,
                   res_message = Some ''User deleted successfully'', res_data = None \<rparr>,
                s\<lparr>users := delete_row (\<lambda>u. usr_id u = i) (users s)\<rparr>))"

definition rest_exchange_delete :: "ident \<Rightarrow> store \<Rightarrow> unit response \<times> store" where
  "rest_exchange_delete =
     validateCuid ''id'' (\<lambda>i s.
       let stockCount = count_where (\<lambda>k. stk_exchangeId k = i) (stocks s)
       in if stockCount > 0
          then (\<lparr> res_status = 400, res_success = Some False,
                   res_error = Some ''Cannot delete exchange with existing stocks'',
                   res_message = None, res_data = None \<rparr>, s)
          else if findUnique (\<lambda>e. exc_id e = i) (exchanges s) = None then (not_found_response, s)
          else (\<lparr> res_status = 200, res_success = Some True, res_error = None,
                   res_message = Some ''Exchange deleted successfully'', res_data = None \<rparr>,
                s\<lparr>exchanges := delete_row (\<lambda>e. exc_id e = i) (exchanges s)\<rparr>))"

definition rest_user_portfolio :: "ident \<Rightarrow> store \<Rightarrow> summary response \<times> store" where
  "rest_user_portfolio =
     validateCuid ''id'' (\<lambda>userId s.
       (\<lparr> res_status = 200, res_success = Some True, res_error = None, res_message = None,
          res_data = Some (portfolio_summary userId s) \<rparr>, s))"

text \<open>
  The list of users over REST. The query parameters are checked by \<^verbatim>\<open>getUsersValidation\<close>
  (a limit from 1 to 100, an offset from 0) and converted to integers;
  \<^verbatim>\<open>Number(x) || d\<close> is \<open>d\<close> for an absent parameter and for zero.
\<close>

definition number_or :: "int \<Rightarrow> int option \<Rightarrow> int" where
  "number_or d x = (case x of None \<Rightarrow> d | Some n \<Rightarrow> if n = 0 then d else n)"

definition validation_error_response :: "'a response" where
  "validation_error_response =
     \<lparr> res_status = 400, res_success = None, res_error = Some ''Validation Error'',
       res_message = None, res_data = None \<rparr>"

definition rest_user_list :: "ListInput \<Rightarrow> store \<Rightarrow> User listing response \<times> store" where
  "rest_user_list i s =
     (if \<not> (limit_ok 100 (li_limit i) \<and> offset_ok (li_offset i)) then (validation_error_response, s)
      else
        let limit = number_or 50 (li_limit i);
            offset = number_or 0 (li_offset i);
            users = page limit offset (desc usr_createdAt (users s));
            total = length (store.users s)
        in (\<lparr> res_status = 200, res_success = Some True, res_error = None, res_message = None,
              res_data = Some \<lparr> items = users, total = total,
                                hasMore = (offset + limit < int total) \<rparr> \<rparr>, s))"

section \<open>Exchange and stock routers\<close>

definition exchange_delete_handler :: "ident \<Rightarrow> store \<Rightarrow> bool outcome" where
  "exchange_delete_handler i s =
     (let stockCount = count_where (\<lambda>k. stk_exchangeId k = i) (stocks s)
      in if stockCount > 0
         then (Inl (Error ''Cannot delete exchange with existing stocks''), s)
         else if findUnique (\<lambda>e. exc_id e = i) (exchanges s) = None then (Inl P2025, s)
         else (Inr True, s\<lparr>exchanges := delete_row (\<lambda>e. exc_id e = i) (exchanges s)\<rparr>))"

definition exchange_delete :: "ident \<Rightarrow> store \<Rightarrow> bool outcome" where
  "exchange_delete = procedure cuid exchange_delete_handler"

text \<open>
  Deleting a stock removes its price history first; the deletion of the stock itself
  then fails with \<open>P2025\<close> when there is no such stock.
\<close>

definition stock_delete_handler :: "ident \<Rightarrow> store \<Rightarrow> bool outcome" where
  "stock_delete_handler i s =
     (let positionCount = count_where (\<lambda>p. pos_stockId p = i) (positions s)
      in if positionCount > 0
         then (Inl (Error ''Cannot delete stock with existing positions''), s)
         else
           let s1 = s\<lparr>priceHistory := deleteMany (\<lambda>h. ph_stockId h = i) (priceHistory s)\<rparr>
           in if findUnique (\<lambda>k. stk_id k = i) (stocks s1) = None then (Inl P2025, s1)
              else (Inr True, s1\<lparr>stocks := delete_row (\<lambda>k. stk_id k = i) (stocks s1)\<rparr>))"

definition stock_delete :: "ident \<Rightarrow> store \<Rightarrow> bool outcome" where
  "stock_delete = procedure cuid stock_delete_handler"

record ListStocksInput =
  ls_exchangeId :: "ident option"
  ls_sector :: "string option"
  ls_search :: "string option"
  ls_isActive :: "bool option"
  ls_limit :: "int option"
  ls_offset :: "int option"

definition ListStocksSchema :: "ListStocksInput \<Rightarrow> bool" where
  "ListStocksSchema i \<longleftrightarrow>
     opt cuid (ls_exchangeId i) \<and> limit_ok 200 (ls_limit i) \<and> offset_ok (ls_offset i)"

text \<open>
  The text search of the database, \<^verbatim>\<open>contains\<close> with \<^verbatim>\<open>mode: 'insensitive'\<close>, is the
  parameter \<open>contains\<close>: \<open>contains text search\<close> holds when \<open>text\<close> matches.
\<close>

definition stock_where :: "(string \<Rightarrow> string \<Rightarrow> bool) \<Rightarrow> ListStocksInput \<Rightarrow> Stock \<Rightarrow> bool" where
  "stock_where contains i k \<longleftrightarrow>
     when_string (ls_exchangeId i) (\<lambda>e. stk_exchangeId k = e) \<and>
     when_string (ls_sector i) (\<lambda>c. stk_sector k = Some c) \<and>
     when_present (ls_isActive i) (\<lambda>a. stk_isActive k = a) \<and>
     when_string (ls_search i) (\<lambda>q. contains (stk_symbol k) q \<or> contains (stk_name k) q)"

definition stock_list_handler ::
  "(string \<Rightarrow> string \<Rightarrow> bool) \<Rightarrow> ListStocksInput \<Rightarrow> store \<Rightarrow> Stock listing outcome" where
  "stock_list_handler contains i s =
     (let limit = withDefault 50 (ls_limit i);
          offset = withDefault 0 (ls_offset i);
          stocks = page limit offset (sort_key stk_symbol (filter (stock_where contains i) (stocks s)));
          total = count_where (stock_where contains i) (store.stocks s)
      in (Inr \<lparr> items = stocks, total = total, hasMore = (offset + limit < int total) \<rparr>, s))"

definition stock_list ::
  "(string \<Rightarrow> string \<Rightarrow> bool) \<Rightarrow> ListStocksInput \<Rightarrow> store \<Rightarrow> Stock listing outcome" where
  "stock_list contains = procedure ListStocksSchema (stock_list_handler contains)"

section \<open>Watchlist router\<close>

record ListWatchlistInput =
  lw_userId :: ident
  lw_limit :: "int option"
  lw_offset :: "int option"

definition ListWatchlistSchema :: "ListWatchlistInput \<Rightarrow> bool" where
  "ListWatchlistSchema i \<longleftrightarrow>
     cuid (lw_userId i) \<and> limit_ok 100 (lw_limit i) \<and> offset_ok (lw_offset i)"

definition watchlist_list_handler :: "ListWatchlistInput \<Rightarrow> store \<Rightarrow> Watchlist listing outcome" where
  "watchlist_list_handler i s =
     (let limit = withDefault 50 (lw_limit i);
          offset = withDefault 0 (lw_offset i);
          watchlistItems =
            page limit offset (desc wl_createdAt (filter (\<lambda>w. wl_userId w = lw_userId i) (watchlist s)));
          total = count_where (\<lambda>w. wl_userId w = lw_userId i) (watchlist s)
      in (Inr \<lparr> items = watchlistItems, total = total, hasMore = (offset + limit < int total) \<rparr>, s))"

definition watchlist_list :: "ListWatchlistInput \<Rightarrow> store \<Rightarrow> Watchlist listing outcome" where
  "watchlist_list = procedure ListWatchlistSchema watchlist_list_handler"

text \<open>
  \<^verbatim>\<open>findFirst\<close> with \<^verbatim>\<open>orderBy: { date: 'desc' }\<close> is the head of the ordered matches.
  The target price and the closing price are \<^verbatim>\<open>Decimal\<close> objects, so in the test
  \<^verbatim>\<open>latestPrice && item.targetPrice\<close> a target price that is not \<^verbatim>\<open>null\<close> is truthy.
\<close>

definition findFirst_desc :: "('a \<Rightarrow> int) \<Rightarrow> ('a \<Rightarrow> bool) \<Rightarrow> 'a list \<Rightarrow> 'a option" where
  "findFirst_desc key P rows = (case desc key (filter P rows) of [] \<Rightarrow> None | r # _ \<Rightarrow> Some r)"

record alert =
  al_item :: Watchlist
  al_stock :: "Stock option"
  al_currentPrice :: "number option"
  al_triggered :: bool

definition annotate :: "store \<Rightarrow> Watchlist \<Rightarrow> alert" where
  "annotate s item =
     (let stock = findUnique (\<lambda>k. stk_id k = wl_stockId item) (stocks s);
          latestPrice = findFirst_desc ph_date (\<lambda>h. ph_stockId h = wl_stockId item) (priceHistory s);
          triggered =
            (case (latestPrice, wl_targetPrice item) of
               (Some l, Some target) \<Rightarrow> js_ge (ph_close l) target
             | _ \<Rightarrow> False)
      in \<lparr> al_item = item, al_stock = stock,
           al_currentPrice = map_option ph_close latestPrice,
           al_triggered = triggered \<rparr>)"

record alerts =
  watchlistWithAlerts :: "alert list"
  triggeredAlerts :: "alert list"

definition getPriceAlerts_handler :: "ident \<Rightarrow> store \<Rightarrow> alerts outcome" where
  "getPriceAlerts_handler userId s =
     (let watchlistItems =
            desc wl_createdAt
              (filter (\<lambda>w. wl_userId w = userId \<and> wl_targetPrice w \<noteq> None) (watchlist s));
          itemsWithDetails = map (annotate s) watchlistItems;
          triggeredAlerts = filter al_triggered itemsWithDetails
      in (Inr \<lparr> watchlistWithAlerts = itemsWithDetails, triggeredAlerts = triggeredAlerts \<rparr>, s))"

definition getPriceAlerts :: "ident \<Rightarrow> store \<Rightarrow> alerts outcome" where
  "getPriceAlerts = procedure cuid getPriceAlerts_handler"

section \<open>Sequences of position operations\<close>

datatype position_op =
    Create ident ident CreatePositionInput
  | Close ident ClosePositionInput
  | Update UpdatePositionInput
  | Delete ident

fun step :: "position_op \<Rightarrow> store \<Rightarrow> store" where
  "step (Create newId newTxId i) s = snd (position_create newId newTxId i s)"
| "step (Close newTxId i) s = snd (position_close newTxId i s)"
| "step (Update i) s = snd (position_update i s)"
| "step (Delete i) s = snd (position_delete i s)"

fun run :: "store \<Rightarrow> position_op list \<Rightarrow> store" where
  "run s [] = s"
| "run s (x # xs) = run (step x s) xs"

definition status_of :: "ident \<Rightarrow> store \<Rightarrow> PositionStatus option" where
  "status_of i s = map_option pos_status (findUnique (\<lambda>q. pos_id q = i) (positions s))"

text \<open>The status of a position before the first operation and after each one.\<close>

fun trace :: "ident \<Rightarrow> store \<Rightarrow> position_op list \<Rightarrow> PositionStatus option list" where
  "trace i s [] = [status_of i s]"
| "trace i s (x # xs) = status_of i s # trace i (step x s) xs"

text \<open>The number of steps in which the status goes from open to closed.\<close>

fun transitions :: "PositionStatus option list \<Rightarrow> nat" where
  "transitions (a # b # r) =
     (if a = Some OPEN \<and> b = Some CLOSED then 1 else 0) + transitions (b # r)"
| "transitions _ = 0"

text \<open>The identifiers that the database generates for the positions of a sequence.\<close>

fun created_ids :: "position_op list \<Rightarrow> ident list" where
  "created_ids [] = []"
| "created_ids (Create newId newTxId i # xs) = newId # created_ids xs"
| "created_ids (x # xs) = created_ids xs"

text \<open>The status of the row with a given identifier in a table of positions.\<close>

definition row_status :: "ident \<Rightarrow> Position list \<Rightarrow> PositionStatus option" where
  "row_status i rows = map_option pos_status (findUnique (\<lambda>q. pos_id q = i) rows)"

section \<open>The contract of the specification\<close>

text \<open>
  The pagination contract in the words of the specification: for a limit \<open>L\<close> and an
  offset \<open>off\<close> over \<open>n\<close> matching rows, the flag is \<open>off + L < n\<close>, at most
  \<open>L\<close> items are returned and the total is \<open>n\<close>.
\<close>

definition pagination_contract :: "int \<Rightarrow> int \<Rightarrow> nat \<Rightarrow> 'a listing \<Rightarrow> bool" where
  "pagination_contract L off n r \<longleftrightarrow>
     hasMore r = (off + L < int n) \<and> int (length (items r)) \<le> L \<and> total r = n"

text \<open>A row matches all provided filters: every filter that is present in the input holds.\<close>

definition position_matches :: "GetPositionsInput \<Rightarrow> Position \<Rightarrow> bool" where
  "position_matches i p \<longleftrightarrow>
     pos_userId p = gp_userId i \<and>
     (case gp_status i of None \<Rightarrow> True | Some st \<Rightarrow> pos_status p = st) \<and>
     (case gp_stockId i of None \<Rightarrow> True | Some k \<Rightarrow> pos_stockId p = k)"

definition transaction_matches :: "store \<Rightarrow> GetTransactionsInput \<Rightarrow> Transaction \<Rightarrow> bool" where
  "transaction_matches s i t \<longleftrightarrow>
     (case gt_positionId i of None \<Rightarrow> True | Some k \<Rightarrow> tx_positionId t = k) \<and>
     (case gt_userId i of None \<Rightarrow> True | Some u \<Rightarrow> owner_is s u t) \<and>
     (case gt_type i of None \<Rightarrow> True | Some ty \<Rightarrow> tx_type t = ty) \<and>
     (case gt_startDate i of None \<Rightarrow> True | Some d \<Rightarrow> d \<le> tx_date t) \<and>
     (case gt_endDate i of None \<Rightarrow> True | Some d \<Rightarrow> tx_date t \<le> d)"

definition stock_matches :: "(string \<Rightarrow> string \<Rightarrow> bool) \<Rightarrow> ListStocksInput \<Rightarrow> Stock \<Rightarrow> bool" where
  "stock_matches contains i k \<longleftrightarrow>
     (case ls_exchangeId i of None \<Rightarrow> True | Some e \<Rightarrow> stk_exchangeId k = e) \<and>
     (case ls_sector i of None \<Rightarrow> True | Some c \<Rightarrow> stk_sector k = Some c) \<and>
     (case ls_isActive i of None \<Rightarrow> True | Some a \<Rightarrow> stk_isActive k = a) \<and>
     (case ls_search i of None \<Rightarrow> True | Some q \<Rightarrow> contains (stk_symbol k) q \<or> contains (stk_name k) q)"

text \<open>An empty text counted as a filter that is not provided.\<close>

definition nonempty :: "string option \<Rightarrow> string option" where
  "nonempty x = (case x of None \<Rightarrow> None | Some v \<Rightarrow> if v = [] then None else Some v)"

definition without_blanks :: "ListStocksInput \<Rightarrow> ListStocksInput" where
  "without_blanks i = i\<lparr>ls_sector := nonempty (ls_sector i), ls_search := nonempty (ls_search i)\<rparr>"

text \<open>One row that satisfies \<open>P\<close> is gone from the table and every other row is kept.\<close>

definition removes :: "('a \<Rightarrow> bool) \<Rightarrow> 'a list \<Rightarrow> 'a list \<Rightarrow> bool" where
  "removes P before after \<longleftrightarrow>
     length after + 1 = length before \<and>
     filter (\<lambda>x. \<not> P x) after = filter (\<lambda>x. \<not> P x) before"

text \<open>The most recent price of a stock: a row of that stock with no later one.\<close>

definition most_recent :: "store \<Rightarrow> ident \<Rightarrow> PriceHistory \<Rightarrow> bool" where
  "most_recent s k h \<longleftrightarrow>
     h \<in> set (priceHistory s) \<and> ph_stockId h = k \<and>
     (\<forall>h' \<in> set (priceHistory s). ph_stockId h' = k \<longrightarrow> ph_date h' \<le> ph_date h)"

section \<open>Example data\<close>

text \<open>
  A text search for the examples: a match on ASCII text that ignores the case of letters.
\<close>

definition lower :: "char \<Rightarrow> char" where
  "lower c =
     (case map_of (zip ''ABCDEFGHIJKLMNOPQRSTUVWXYZ'' ''abcdefghijklmnopqrstuvwxyz'') c of
        None \<Rightarrow> c
      | Some l \<Rightarrow> l)"

fun starts_with :: "string \<Rightarrow> string \<Rightarrow> bool" where
  "starts_with cs [] = True"
| "starts_with [] (q # qs) = False"
| "starts_with (c # cs) (q # qs) = (c = q \<and> starts_with cs qs)"

fun contains_text :: "string \<Rightarrow> string \<Rightarrow> bool" where
  "contains_text [] q = (q = [])"
| "contains_text (c # cs) q = (starts_with (c # cs) q \<or> contains_text cs q)"

definition contains_insensitive :: "string \<Rightarrow> string \<Rightarrow> bool" where
  "contains_insensitive text q = contains_text (map lower text) (map lower q)"

definition empty_store :: store where
  "empty_store =
     \<lparr> users = [], exchanges = [], stocks = [], priceHistory = [], positions = [],
       transactions = [], watchlist = [] \<rparr>"

text \<open>The worked example: ten shares bought at 100 with fees of 5, sold at 120 with fees of 3.\<close>

definition example_create :: CreatePositionInput where
  "example_create =
     \<lparr> cp_userId = ''cuser00001'', cp_stockId = ''cstock0001'', cp_openDate = 1000,
       cp_entryPrice = Num 100, cp_quantity = 10, cp_positionType = None,
       cp_buyFees = Some (Num 5), cp_stopLossPrice = None, cp_takeProfitPrice = None,
       cp_riskAmount = None, cp_riskPercentage = None, cp_openReason = ''breakout'',
       cp_strategy = None, cp_setupType = None, cp_timeframe = None, cp_tags = None,
       cp_notes = None \<rparr>"

definition example_position :: Position where
  "example_position =
     \<lparr> pos_id = ''cposition1'', pos_userId = ''cuser00001'', pos_stockId = ''cstock0001'',
       pos_status = OPEN, pos_positionType = LONG, pos_openDate = 1000,
       pos_entryPrice = Num 100, pos_quantity = 10, pos_buyFees = Num 5,
       pos_totalBuyValue = Num 1000, pos_capitalAllocated = Num 1005,
       pos_closeDate = None, pos_exitPrice = None, pos_totalSellValue = None,
       pos_sellFees = None, pos_realizedPnL = None, pos_returnPercentage = None,
       pos_stopLossPrice = None, pos_takeProfitPrice = None, pos_riskAmount = None,
       pos_riskPercentage = None, pos_openReason = ''breakout'', pos_strategy = None,
       pos_setupType = None, pos_timeframe = None, pos_tags = [], pos_notes = None,
       pos_tradeGrade = None, pos_lessonsLearned = None \<rparr>"

definition example_buy :: Transaction where
  "example_buy =
     \<lparr> tx_id = ''ctransact1'', tx_positionId = ''cposition1'', tx_type = BUY, tx_date = 1000,
       tx_quantity = 10, tx_price = Num 100, tx_totalValue = Num 1000, tx_fees = Num 5,
       tx_executionTime = None, tx_brokerRef = None, tx_orderType = None, tx_notes = None \<rparr>"

definition example_close :: ClosePositionInput where
  "example_close =
     \<lparr> cl_positionId = ''cposition1'', cl_closeDate = 2000, cl_exitPrice = Num 120,
       cl_sellFees = Some (Num 3), cl_tradeGrade = Some ''A'', cl_lessonsLearned = None \<rparr>"

definition closed_position :: Position where
  "closed_position =
     example_position
       \<lparr> pos_status := CLOSED, pos_closeDate := Some 2000, pos_exitPrice := Some (Num 120),
         pos_totalSellValue := Some (Num 1200), pos_sellFees := Some (Num 3),
         pos_realizedPnL := Some (Num 192),
         pos_returnPercentage := Some (Num (5377432390890145 / 2 ^ 48)),
         pos_tradeGrade := Some ''A'' \<rparr>"

definition example_sell :: Transaction where
  "example_sell =
     \<lparr> tx_id = ''ctransact2'', tx_positionId = ''cposition1'', tx_type = SELL, tx_date = 2000,
       tx_quantity = 10, tx_price = Num 120, tx_totalValue = Num 1200, tx_fees = Num 3,
       tx_executionTime = None, tx_brokerRef = None, tx_orderType = None, tx_notes = None \<rparr>"

definition example_update :: UpdatePositionInput where
  "example_update =
     \<lparr> up_id = ''cposition1'', up_stopLossPrice = Some (Num 95), up_takeProfitPrice = None,
       up_strategy = None, up_setupType = None, up_timeframe = None,
       up_tags = Some [''swing''], up_notes = None \<rparr>"

text \<open>
  A database with two users, two exchanges, two stocks with prices, a position that owns
  its opening transaction, a position that owns none, and three watchlist rows.
\<close>

definition idle_position :: Position where
  "idle_position = example_position\<lparr> pos_id := ''cposition2'', pos_openDate := 1500 \<rparr>"

definition example_store :: store where
  "example_store =
     \<lparr> users =
         [\<lparr> usr_id = ''cuser00001'', usr_email = ''ann@example.org'', usr_name = Some ''Ann'',
            usr_createdAt = 10, usr_updatedAt = 10 \<rparr>,
          \<lparr> usr_id = ''cuser00002'', usr_email = ''bob@example.org'', usr_name = None,
            usr_createdAt = 20, usr_updatedAt = 20 \<rparr>],
       exchanges =
         [\<lparr> exc_id = ''cexchange1'', exc_code = ''NYSE'', exc_name = ''New York Stock Exchange'',
            exc_country = ''US'', exc_timezone = ''America/New_York'', exc_currency = ''USD'',
            exc_isActive = True \<rparr>,
          \<lparr> exc_id = ''cexchange2'', exc_code = ''LSE'', exc_name = ''London Stock Exchange'',
            exc_country = ''GB'', exc_timezone = ''Europe/London'', exc_currency = ''GBP'',
            exc_isActive = True \<rparr>],
       stocks =
         [\<lparr> stk_id = ''cstock0001'', stk_symbol = ''IBM'', stk_name = ''International Business Machines'',
            stk_sector = Some ''Technology'', stk_industry = None, stk_marketCap = None,
            stk_exchangeId = ''cexchange1'', stk_isActive = True \<rparr>,
          \<lparr> stk_id = ''cstock0002'', stk_symbol = ''KO'', stk_name = ''Coca-Cola'',
            stk_sector = None, stk_industry = None, stk_marketCap = None,
            stk_exchangeId = ''cexchange1'', stk_isActive = True \<rparr>],
       priceHistory =
         [\<lparr> ph_stockId = ''cstock0001'', ph_date = 1, ph_open = Num 108, ph_high = Num 111,
            ph_low = Num 107, ph_close = Num 110, ph_volume = None \<rparr>,
          \<lparr> ph_stockId = ''cstock0001'', ph_date = 2, ph_open = Num 110, ph_high = Num 126,
            ph_low = Num 109, ph_close = Num 125, ph_volume = None \<rparr>,
          \<lparr> ph_stockId = ''cstock0002'', ph_date = 1, ph_open = Num 49, ph_high = Num 51,
            ph_low = Num 48, ph_close = Num 50, ph_volume = None \<rparr>],
       positions = [example_position, idle_position],
       transactions = [example_buy],
       watchlist =
         [\<lparr> wl_id = ''cwatch0001'', wl_userId = ''cuser00001'', wl_stockId = ''cstock0001'',
            wl_name = None, wl_notes = None, wl_targetPrice = Some (Num 120), wl_createdAt = 30 \<rparr>,
          \<lparr> wl_id = ''cwatch0002'', wl_userId = ''cuser00001'', wl_stockId = ''cstock0002'',
            wl_name = None, wl_notes = None, wl_targetPrice = Some (Num 60), wl_createdAt = 20 \<rparr>,
          \<lparr> wl_id = ''cwatch0003'', wl_userId = ''cuser00001'', wl_stockId = ''cstock0002'',
            wl_name = None, wl_notes = None, wl_targetPrice = None, wl_createdAt = 10 \<rparr>] \<rparr>"

definition blank_sector_query :: ListStocksInput where
  "blank_sector_query =
     \<lparr> ls_exchangeId = None, ls_sector = Some [], ls_search = None, ls_isActive = None,
       ls_limit = None, ls_offset = None \<rparr>"

definition closed_store :: store where
  "closed_store =
     example_store\<lparr> positions := [closed_position, idle_position],
                     transactions := [example_buy, example_sell] \<rparr>"

text \<open>The example database before any position is opened.\<close>

definition market_store :: store where
  "market_store = example_store\<lparr> positions := [], transactions := [] \<rparr>"

definition example_requantify :: UpdateTransactionInput where
  "example_requantify =
     \<lparr> ut_id = ''ctransact1'', ut_date = None, ut_quantity = Some 20, ut_price = None,
       ut_fees = None, ut_executionTime = None, ut_brokerRef = None, ut_orderType = None,
       ut_notes = None \<rparr>"

definition example_renote :: UpdateTransactionInput where
  "example_renote =
     \<lparr> ut_id = ''ctransact1'', ut_date = None, ut_quantity = None, ut_price = None,
       ut_fees = Some (Num 7), ut_executionTime = None, ut_brokerRef = None,
       ut_orderType = None, ut_notes = Some ''filled at the open'' \<rparr>"

definition example_page :: GetPositionsInput where
  "example_page =
     \<lparr> gp_userId = ''cuser00001'', gp_status = Some OPEN, gp_stockId = Some ''cstock0001'',
       gp_limit = Some 1, gp_offset = None \<rparr>"

definition example_tx_query :: GetTransactionsInput where
  "example_tx_query =
     \<lparr> gt_positionId = None, gt_userId = Some ''cuser00001'', gt_type = Some BUY,
       gt_startDate = Some 500, gt_endDate = None, gt_limit = None, gt_offset = Some 1 \<rparr>"

definition example_user_page :: ListInput where
  "example_user_page = \<lparr> li_limit = Some 1, li_offset = None \<rparr>"

definition example_watch_page :: ListWatchlistInput where
  "example_watch_page = \<lparr> lw_userId = ''cuser00001'', lw_limit = Some 2, lw_offset = Some 1 \<rparr>"

text \<open>A history: the position is opened, updated, closed, closed again and deleted.\<close>

definition example_history :: "position_op list" where
  "example_history =
     [Create ''cposition1'' ''ctransact1'' example_create,
      Update example_update,
      Close ''ctransact2'' example_close,
      Close ''ctransact3'' example_close,
      Delete ''cposition1'']"

section \<open>Properties\<close>

subsection \<open>Rounding\<close>

lemma round_half_even_eq:
  assumes "\<bar>q - of_int n\<bar> < 1 / 2"
  shows "round_half_even q = n"
proof (cases "of_int n \<le> q")
  case True
  with assms have "\<lfloor>q\<rfloor> = n"
    by (intro floor_unique) linarith+
  with assms True show ?thesis
    by (simp add: round_half_even_def Let_def)
next
  case False
  with assms have "\<lfloor>q\<rfloor> = n - 1"
    by (intro floor_unique; simp; linarith)
  with assms False show ?thesis
    by (simp add: round_half_even_def Let_def)
qed

lemma round_half_even_of_int: "round_half_even (of_int n) = n"
  by (rule round_half_even_eq) simp

text \<open>
  In the binade \<open>2 ^ (b - 1) \<le> x * 2 ^ 1074 < 2 ^ b\<close> of a normal number the doubles
  are \<open>2 ^ (b - 53) / 2 ^ 1074\<close> apart, and \<open>x\<close> rounds to the multiple nearest to it.
\<close>

lemma to_double_eq:
  fixes x :: real and b :: nat
  assumes pos: "0 \<le> x"
    and lo: "2 ^ (b - 1) \<le> x * 2 ^ 1074"
    and hi: "x * 2 ^ 1074 < 2 ^ b"
    and normal: "53 \<le> b"
  shows "to_double x =
          (let r = of_int (round_half_even (x * 2 ^ 1074 / 2 ^ (b - 53))) * 2 ^ (b - 53) / 2 ^ 1074
           in if 2 ^ 1024 \<le> r then Infinity else Num r)"
proof -
  let ?m = "\<lfloor>\<bar>x\<bar> * 2 ^ 1074\<rfloor>"
  have magnitude: "\<bar>x\<bar> = x"
    using pos by simp
  have "(2::real) ^ (b - 1) = of_int (2 ^ (b - 1))" "(2::real) ^ b = of_int (2 ^ b)"
    by simp_all
  with lo hi magnitude have m: "2 ^ (b - 1) \<le> ?m" "?m < 2 ^ b"
    by (simp_all only: le_floor_iff floor_less_iff)
  have "bitlen ?m \<le> int b"
    using m(2) by (simp add: bitlen_le_iff_power)
  moreover have "int b \<le> bitlen ?m"
    using m(1) normal by (simp add: bitlen_ge_iff_power nat_diff_distrib)
  ultimately have len: "bitlen ?m = int b"
    by simp
  have bits: "nat (int b - 53) = b - 53"
    by simp
  have quotient: "\<bar>x\<bar> / (2 ^ (b - 53) / 2 ^ 1074) = x * 2 ^ 1074 / 2 ^ (b - 53)"
    by (simp add: magnitude)
  from pos show ?thesis
    unfolding to_double_def Let_def len bits quotient by simp
qed

lemma to_double_zero: "to_double 0 = Num 0"
  by (simp add: to_double_def round_half_even_def)

text \<open>The positive integers below \<open>2 ^ 53\<close> are doubles.\<close>

lemma to_double_int:
  fixes n :: int
  assumes "0 < n" and "n < 2 ^ 53"
  shows "to_double (of_int n) = Num (of_int n)"
proof -
  define l where "l = nat (bitlen n)"
  have "1 \<le> bitlen n"
    using assms(1) by (simp add: bitlen_ge_iff_power)
  moreover have "bitlen n \<le> 53"
    using assms(2) by (simp add: bitlen_le_iff_power)
  ultimately have l: "1 \<le> l" "l \<le> 53" "bitlen n = int l"
    by (simp_all add: l_def)
  from bitlen_bounds[OF assms(1)] l have bounds: "2 ^ (l - 1) \<le> n" "n < 2 ^ l"
    by (simp_all add: nat_diff_distrib)
  have scale: "(2::real) ^ 1074 = 2 ^ (53 - l) * 2 ^ (l + 1021)"
    using l(2) by (simp only: power_add[symmetric]) simp
  have lo: "(2::real) ^ (l + 1074 - 1) \<le> of_int n * 2 ^ 1074"
  proof -
    have "(2::real) ^ (l + 1074 - 1) = 2 ^ (l - 1) * 2 ^ 1074"
      using l(1) by (simp only: power_add[symmetric]) simp
    moreover have "(2::real) ^ (l - 1) \<le> of_int n"
      using bounds(1) by (metis of_int_le_iff of_int_numeral of_int_power)
    ultimately show ?thesis
      by (simp only: mult_le_cancel_right) simp
  qed
  have hi: "of_int n * (2::real) ^ 1074 < 2 ^ (l + 1074)"
  proof -
    have "of_int n < (2::real) ^ l"
      using bounds(2) by (metis of_int_less_iff of_int_numeral of_int_power)
    then show ?thesis
      by (simp only: power_add mult_less_cancel_right) simp
  qed
  have bits: "l + 1074 - 53 = l + 1021"
    by simp
  have multiple: "of_int n * (2::real) ^ 1074 / 2 ^ (l + 1021) = of_int (n * 2 ^ (53 - l))"
    by (simp only: scale) simp
  have same: "of_int (n * 2 ^ (53 - l)) * (2::real) ^ (l + 1021) / 2 ^ 1074 = of_int n"
    by (simp only: scale) simp
  have small: "\<not> (2::real) ^ 1024 \<le> of_int n"
  proof -
    have "of_int n < (2::real) ^ 53"
      using assms(2) by (metis of_int_less_iff of_int_numeral of_int_power)
    also have "(2::real) ^ 53 \<le> 2 ^ 1024"
      by (rule power_increasing) simp_all
    finally show ?thesis
      by simp
  qed
  have "0 \<le> (of_int n :: real)"
    using assms(1) by simp
  from to_double_eq[OF this lo hi] show ?thesis
    by (simp only: bits multiple round_half_even_of_int same small Let_def if_False)
qed

lemma to_double_numeral:
  "numeral k < (2::int) ^ 53 \<Longrightarrow> to_double (numeral k) = Num (numeral k)"
  using to_double_int [of "numeral k"] by simp

text \<open>A negative number rounds as its magnitude does.\<close>

lemma to_double_minus: "to_double (- x) = js_neg (to_double x)"
  by (cases "x = 0") (auto simp add: to_double_def Let_def round_half_even_def)

text \<open>
  Three times the double nearest to one tenth lies half way between two doubles and
  rounds to the even one, which is not the double nearest to three tenths; twice
  \<open>2 ^ 1023\<close> is out of range.
\<close>

lemma js_mul_rounds:
  "js_mul (Num 3) (Num (3602879701896397 / 2 ^ 55)) = Num (1351079888211149 / 2 ^ 52)"
  using to_double_eq [of "3 * (3602879701896397 / 2 ^ 55)" 1073]
  by (simp add: round_half_even_def)

lemma js_mul_overflows: "js_mul (Num 2) (Num (2 ^ 1023)) = Infinity"
  using to_double_eq [of "2 * 2 ^ 1023" 2099]
  by (simp add: round_half_even_def)

text \<open>The arithmetic of the worked example.\<close>

lemma rounded_quotient: "js_div (Num 192) (Num 1005) = Num (6883113460339385 / 2 ^ 55)"
  using to_double_eq [of "192 / 1005" 1072]
  by (simp add: round_half_even_def)

lemma rounded_percentage:
  "js_mul (Num (6883113460339385 / 2 ^ 55)) (Num 100) = Num (5377432390890145 / 2 ^ 48)"
  using to_double_eq [of "6883113460339385 / 2 ^ 55 * 100" 1079]
  by (simp add: round_half_even_def)

lemma example_return:
  "js_mul (js_div (js_sub (js_sub (js_sub (js_mul (Num 10) (Num 120)) (Num 1000)) (Num 5)) (Num 3))
      (Num 1005)) (Num 100) = Num (5377432390890145 / 2 ^ 48)"
proof -
  have "js_sub (js_sub (js_sub (js_mul (Num 10) (Num 120)) (Num 1000)) (Num 5)) (Num 3) = Num 192"
    by (simp add: js_sub_def to_double_numeral)
  then show ?thesis
    by (simp only: rounded_quotient rounded_percentage)
qed

subsection \<open>Tables\<close>

lemma procedure_ok: "schema inp \<Longrightarrow> procedure schema handler inp s = handler inp s"
  by (simp add: procedure_def)

lemma cuid_nonempty: "cuid v \<Longrightarrow> v \<noteq> []"
  by (auto simp: cuid_def)

lemma findUnique_update_row:
  "findUnique P rows = Some x \<Longrightarrow> P (f x) \<Longrightarrow> findUnique P (update_row P f rows) = Some (f x)"
  by (induction rows) (auto simp: findUnique_def)

lemma findUnique_append_new:
  "findUnique P rows = None \<Longrightarrow> P x \<Longrightarrow> findUnique P (rows @ [x]) = Some x"
  by (induction rows) (auto simp: findUnique_def split: if_splits)

lemma findUnique_Some_holds: "findUnique P rows = Some x \<Longrightarrow> P x"
  by (induction rows) (auto simp: findUnique_def split: if_splits)

lemma length_update_row: "length (update_row P f rows) = length rows"
  by (induction rows) auto

lemma filter_update_row_others:
  "(\<And>x. P x \<Longrightarrow> \<not> Q (f x) \<and> \<not> Q x) \<Longrightarrow> filter Q (update_row P f rows) = filter Q rows"
  by (induction rows) auto

lemma count_where_pos: "0 < count_where P rows \<longleftrightarrow> (\<exists>x \<in> set rows. P x)"
  by (simp add: count_where_def filter_empty_conv)

lemma removes_delete_row: "findUnique P rows \<noteq> None \<Longrightarrow> removes P rows (delete_row P rows)"
  by (induction rows) (auto simp: removes_def findUnique_def)

lemma example_ids:
  "cuid ''cuser00001''" "cuid ''cuser00002''" "cuid ''cstock0001''" "cuid ''cstock0002''"
  "cuid ''cposition1''" "cuid ''cposition2''" "cuid ''cexchange1''" "cuid ''cexchange2''"
  "cuid ''ctransact1''" "cuid ''ctransact9''"
  by (simp_all add: cuid_def whitespace_def)

lemma example_valid:
  "CreatePositionSchema example_create" "ClosePositionSchema example_close"
  "UpdatePositionSchema example_update"
  by (simp_all add: CreatePositionSchema_def ClosePositionSchema_def UpdatePositionSchema_def
      example_create_def example_close_def example_update_def example_ids positive_def
      nonnegative_def opt_def)

subsection \<open>Creating a position\<close>

text \<open>
  C2. For every input that passes \<open>CreatePositionSchema\<close> (a positive entry price, a
  positive integer quantity, non-negative buy fees, a non-empty open reason), \<open>create\<close>
  stores a position with \<open>totalBuyValue = quantity * entryPrice\<close>,
  \<open>capitalAllocated = totalBuyValue + buyFees\<close> and status \<open>OPEN\<close>, and appends exactly
  one transaction: a \<open>BUY\<close> of that position with the open date, the quantity, the entry
  price, the total buy value and the buy fees. The product and the sum are those of the
  language, rounded to a double. The identifiers generated for the two rows are new, and
  the user and the stock named by the input exist.
\<close>

theorem create_persists_position_and_buy:
  assumes "CreatePositionSchema i"
    and "findUnique (\<lambda>q. pos_id q = newId) (positions s) = None"
    and "findUnique (\<lambda>u. tx_id u = newTxId) (transactions s) = None"
    and "findUnique (\<lambda>u. usr_id u = cp_userId i) (users s) \<noteq> None"
    and "findUnique (\<lambda>k. stk_id k = cp_stockId i) (stocks s) \<noteq> None"
  shows "\<exists>p t. position_create newId newTxId i s =
          (Inr p, s\<lparr>positions := positions s @ [p], transactions := transactions s @ [t]\<rparr>)
      \<and> pos_id p = newId
      \<and> pos_totalBuyValue p = js_mul (Num (of_int (cp_quantity i))) (cp_entryPrice i)
      \<and> pos_capitalAllocated p = js_add (pos_totalBuyValue p) (withDefault (Num 0) (cp_buyFees i))
      \<and> pos_status p = OPEN
      \<and> pos_quantity p = cp_quantity i \<and> pos_entryPrice p = cp_entryPrice i
      \<and> pos_buyFees p = withDefault (Num 0) (cp_buyFees i)
      \<and> tx_id t = newTxId \<and> tx_positionId t = newId \<and> tx_type t = BUY
      \<and> tx_date t = cp_openDate i \<and> tx_quantity t = cp_quantity i
      \<and> tx_price t = cp_entryPrice i \<and> tx_totalValue t = pos_totalBuyValue p
      \<and> tx_fees t = withDefault (Num 0) (cp_buyFees i)"
proof -
  let ?tbv = "js_mul (Num (of_int (cp_quantity i))) (cp_entryPrice i)"
  let ?fees = "withDefault (Num 0) (cp_buyFees i)"
  let ?p = "new_position newId i ?tbv (js_add ?tbv ?fees)"
  let ?t = "new_transaction newTxId newId BUY (cp_openDate i) (cp_quantity i) (cp_entryPrice i) ?tbv ?fees"
  have id: "pos_id ?p = newId" by (simp add: new_position_def)
  have refs: "pos_userId ?p = cp_userId i" "pos_stockId ?p = cp_stockId i"
    by (simp_all add: new_position_def)
  have tx: "tx_id ?t = newTxId" "tx_positionId ?t = newId" "tx_type ?t = BUY"
    "tx_date ?t = cp_openDate i" "tx_quantity ?t = cp_quantity i" "tx_price ?t = cp_entryPrice i"
    "tx_fees ?t = ?fees"
    by (simp_all add: new_transaction_def)
  have stored: "findUnique (\<lambda>q. pos_id q = newId) (positions s @ [?p]) = Some ?p"
    using assms(2) id by (rule findUnique_append_new)
  have run: "position_create newId newTxId i s =
      (Inr ?p, s\<lparr>positions := positions s @ [?p], transactions := transactions s @ [?t]\<rparr>)"
    using assms
    by (simp add: position_create_def procedure_ok position_create_handler_def Let_def
        position_create_row_def transaction_create_row_def id refs tx stored)
  have tbv: "pos_totalBuyValue ?p = ?tbv" by (simp add: new_position_def)
  have cap: "pos_capitalAllocated ?p = js_add (pos_totalBuyValue ?p) ?fees"
    by (simp add: new_position_def)
  have fields: "pos_status ?p = OPEN" "pos_quantity ?p = cp_quantity i"
    "pos_entryPrice ?p = cp_entryPrice i" "pos_buyFees ?p = ?fees"
    by (simp_all add: new_position_def)
  have txv: "tx_totalValue ?t = pos_totalBuyValue ?p"
    by (simp add: new_transaction_def new_position_def)
  show ?thesis
    by (rule exI[of _ ?p], rule exI[of _ ?t]) (intro conjI run id tbv cap fields tx txv)
qed

text \<open>The worked example, created in a database that has the user and the stock.\<close>

theorem create_persists_position_and_buy_witness:
  "CreatePositionSchema example_create
   \<and> findUnique (\<lambda>q. pos_id q = ''cposition1'') (positions market_store) = None
   \<and> findUnique (\<lambda>u. tx_id u = ''ctransact1'') (transactions market_store) = None
   \<and> findUnique (\<lambda>u. usr_id u = cp_userId example_create) (users market_store) \<noteq> None
   \<and> findUnique (\<lambda>k. stk_id k = cp_stockId example_create) (stocks market_store) \<noteq> None
   \<and> (\<exists>p t. position_create ''cposition1'' ''ctransact1'' example_create market_store =
         (Inr p, market_store\<lparr>positions := [p], transactions := [t]\<rparr>)
       \<and> pos_totalBuyValue p = Num 1000 \<and> pos_capitalAllocated p = Num 1005
       \<and> pos_status p = OPEN
       \<and> tx_type t = BUY \<and> tx_positionId t = ''cposition1'' \<and> tx_date t = 1000
       \<and> tx_quantity t = 10 \<and> tx_price t = Num 100 \<and> tx_totalValue t = Num 1000
       \<and> tx_fees t = Num 5)"
proof -
  have valid: "CreatePositionSchema example_create"
    by (simp add: CreatePositionSchema_def example_create_def example_ids positive_def
        nonnegative_def opt_def)
  have no_position: "findUnique (\<lambda>q. pos_id q = ''cposition1'') (positions market_store) = None"
    by (simp add: market_store_def findUnique_def)
  have no_transaction: "findUnique (\<lambda>u. tx_id u = ''ctransact1'') (transactions market_store) = None"
    by (simp add: market_store_def findUnique_def)
  have user: "findUnique (\<lambda>u. usr_id u = cp_userId example_create) (users market_store) \<noteq> None"
    by (simp add: market_store_def example_store_def example_create_def findUnique_def)
  have stock: "findUnique (\<lambda>k. stk_id k = cp_stockId example_create) (stocks market_store) \<noteq> None"
    by (simp add: market_store_def example_store_def example_create_def findUnique_def)
  from create_persists_position_and_buy[OF valid no_position no_transaction user stock]
  obtain p t where run: "position_create ''cposition1'' ''ctransact1'' example_create market_store =
          (Inr p, market_store\<lparr>positions := positions market_store @ [p],
                              transactions := transactions market_store @ [t]\<rparr>)"
    and tbv: "pos_totalBuyValue p =
        js_mul (Num (of_int (cp_quantity example_create))) (cp_entryPrice example_create)"
    and cap: "pos_capitalAllocated p =
        js_add (pos_totalBuyValue p) (withDefault (Num 0) (cp_buyFees example_create))"
    and p: "pos_status p = OPEN"
    and t: "tx_positionId t = ''cposition1''" "tx_type t = BUY"
      "tx_date t = cp_openDate example_create" "tx_quantity t = cp_quantity example_create"
      "tx_price t = cp_entryPrice example_create" "tx_totalValue t = pos_totalBuyValue p"
      "tx_fees t = withDefault (Num 0) (cp_buyFees example_create)"
    by blast
  from tbv have total: "pos_totalBuyValue p = Num 1000"
    by (simp add: example_create_def to_double_numeral)
  with cap have amounts: "pos_totalBuyValue p = Num 1000" "pos_capitalAllocated p = Num 1005"
    by (simp_all add: example_create_def withDefault_def to_double_numeral)
  from run have run': "position_create ''cposition1'' ''ctransact1'' example_create market_store =
         (Inr p, market_store\<lparr>positions := [p], transactions := [t]\<rparr>)"
    by (simp add: market_store_def)
  from t amounts have t': "tx_type t = BUY" "tx_positionId t = ''cposition1''" "tx_date t = 1000"
    "tx_quantity t = 10" "tx_price t = Num 100" "tx_totalValue t = Num 1000" "tx_fees t = Num 5"
    by (simp_all add: example_create_def withDefault_def)
  show ?thesis
    by (intro conjI valid no_position no_transaction user stock exI[of _ p] exI[of _ t] run' amounts p t')
qed

subsection \<open>Closing a position\<close>

text \<open>
  C1. Closing an open position with an exit price and sell fees that pass the schema
  computes \<open>totalSellValue = quantity * exitPrice\<close>,
  \<open>realizedPnL = totalSellValue - totalBuyValue - buyFees - sellFees\<close> and
  \<open>returnPercentage = realizedPnL / capitalAllocated * 100\<close>, sets the status to
  \<open>CLOSED\<close> and appends one \<open>SELL\<close> transaction with the close date, the quantity of
  the position, the exit price, the total sell value and the sell fees. The product,
  the differences and the quotient are those of the language, each rounded to a double.
  The identifier generated for the transaction is new.
\<close>

theorem close_computes_realized_pnl:
  assumes "ClosePositionSchema i"
    and "findUnique (\<lambda>q. pos_id q = cl_positionId i) (positions s) = Some p"
    and "pos_status p = OPEN"
    and "findUnique (\<lambda>u. tx_id u = newTxId) (transactions s) = None"
  shows "\<exists>p' t s'. position_close newTxId i s = (Inr p', s')
      \<and> findUnique (\<lambda>q. pos_id q = cl_positionId i) (positions s') = Some p'
      \<and> transactions s' = transactions s @ [t]
      \<and> pos_totalSellValue p' = Some (js_mul (Num (of_int (pos_quantity p))) (cl_exitPrice i))
      \<and> pos_realizedPnL p' =
          Some (js_sub (js_sub (js_sub (js_mul (Num (of_int (pos_quantity p))) (cl_exitPrice i))
                  (pos_totalBuyValue p)) (pos_buyFees p)) (withDefault (Num 0) (cl_sellFees i)))
      \<and> pos_returnPercentage p' =
          Some (js_mul (js_div (js_sub (js_sub (js_sub
                  (js_mul (Num (of_int (pos_quantity p))) (cl_exitPrice i))
                  (pos_totalBuyValue p)) (pos_buyFees p)) (withDefault (Num 0) (cl_sellFees i)))
                (pos_capitalAllocated p)) (Num 100))
      \<and> pos_status p' = CLOSED
      \<and> tx_id t = newTxId \<and> tx_positionId t = cl_positionId i \<and> tx_type t = SELL
      \<and> tx_date t = cl_closeDate i \<and> tx_quantity t = pos_quantity p
      \<and> tx_price t = cl_exitPrice i
      \<and> tx_totalValue t = js_mul (Num (of_int (pos_quantity p))) (cl_exitPrice i)
      \<and> tx_fees t = withDefault (Num 0) (cl_sellFees i)"
proof -
  let ?sf = "withDefault (Num 0) (cl_sellFees i)"
  let ?tsv = "js_mul (Num (of_int (pos_quantity p))) (cl_exitPrice i)"
  let ?pnl = "js_sub (js_sub (js_sub ?tsv (pos_totalBuyValue p)) (pos_buyFees p)) ?sf"
  let ?ret = "js_mul (js_div ?pnl (pos_capitalAllocated p)) (Num 100)"
  let ?f = "\<lambda>p. p\<lparr> pos_status := CLOSED,
                  pos_closeDate := Some (cl_closeDate i),
                  pos_exitPrice := Some (cl_exitPrice i),
                  pos_totalSellValue := Some ?tsv,
                  pos_sellFees := Some ?sf,
                  pos_realizedPnL := Some ?pnl,
                  pos_returnPercentage := Some ?ret,
                  pos_tradeGrade := merge (cl_tradeGrade i) (pos_tradeGrade p),
                  pos_lessonsLearned := merge (cl_lessonsLearned i) (pos_lessonsLearned p) \<rparr>"
  let ?t = "new_transaction newTxId (cl_positionId i) SELL (cl_closeDate i)
              (pos_quantity p) (cl_exitPrice i) ?tsv ?sf"
  let ?s' = "s\<lparr>positions := update_row (\<lambda>q. pos_id q = cl_positionId i) ?f (positions s),
               transactions := transactions s @ [?t]\<rparr>"
  have pid: "pos_id p = cl_positionId i"
    using assms(2) by (rule findUnique_Some_holds)
  have tx: "tx_id ?t = newTxId" "tx_positionId ?t = cl_positionId i" "tx_type ?t = SELL"
    "tx_date ?t = cl_closeDate i" "tx_quantity ?t = pos_quantity p" "tx_price ?t = cl_exitPrice i"
    "tx_totalValue ?t = ?tsv" "tx_fees ?t = ?sf"
    by (simp_all add: new_transaction_def)
  have found: "findUnique (\<lambda>q. pos_id q = cl_positionId i) (positions ?s') = Some (?f p)"
    using findUnique_update_row[OF assms(2), of ?f] pid by simp
  then have kept: "findUnique (\<lambda>q. pos_id q = cl_positionId i)
      (update_row (\<lambda>q. pos_id q = cl_positionId i) ?f (positions s)) = Some (?f p)"
    by simp
  have run: "position_close newTxId i s = (Inr (?f p), ?s')"
    using assms
    by (simp add: position_close_def procedure_ok position_close_handler_def Let_def
        position_update_row_def transaction_create_row_def tx kept)
  have txs: "transactions ?s' = transactions s @ [?t]" by simp
  have fields: "pos_totalSellValue (?f p) = Some ?tsv" "pos_realizedPnL (?f p) = Some ?pnl"
    "pos_returnPercentage (?f p) = Some ?ret" "pos_status (?f p) = CLOSED"
    by simp_all
  show ?thesis
    by (rule exI[of _ "?f p"], rule exI[of _ ?t], rule exI[of _ ?s'])
       (intro conjI run found txs fields tx)
qed

text \<open>
  The worked example of the specification. The total sell value and the realized profit
  are exact; the return is the double nearest to one hundred times the double nearest
  to \<open>192 / 1005\<close>, which prints as \<^verbatim>\<open>19.1044776119403\<close> and lies within \<open>1 / 10 ^ 14\<close>
  of the quotient of real arithmetic.
\<close>

theorem close_computes_realized_pnl_witness:
  "ClosePositionSchema example_close
   \<and> findUnique (\<lambda>q. pos_id q = cl_positionId example_close) (positions example_store) = Some example_position
   \<and> pos_status example_position = OPEN
   \<and> findUnique (\<lambda>u. tx_id u = ''ctransact2'') (transactions example_store) = None
   \<and> (\<exists>p' t s'. position_close ''ctransact2'' example_close example_store = (Inr p', s')
       \<and> pos_totalSellValue p' = Some (Num 1200)
       \<and> pos_realizedPnL p' = Some (Num 192)
       \<and> pos_returnPercentage p' = Some (js_mul (js_div (Num 192) (Num 1005)) (Num 100))
       \<and> pos_returnPercentage p' = Some (Num (5377432390890145 / 2 ^ 48))
       \<and> \<bar>5377432390890145 / 2 ^ 48 - 192 / 1005 * 100\<bar> < (1 / 10 ^ 14 :: real)
       \<and> pos_status p' = CLOSED
       \<and> transactions s' = [example_buy, t]
       \<and> tx_type t = SELL \<and> tx_date t = 2000 \<and> tx_quantity t = 10 \<and> tx_price t = Num 120
       \<and> tx_totalValue t = Num 1200 \<and> tx_fees t = Num 3)"
proof -
  have valid: "ClosePositionSchema example_close"
    by (simp add: ClosePositionSchema_def example_close_def example_ids positive_def
        nonnegative_def opt_def)
  have found: "findUnique (\<lambda>q. pos_id q = cl_positionId example_close) (positions example_store) = Some example_position"
    by (simp add: findUnique_def example_close_def example_store_def example_position_def)
  have is_open: "pos_status example_position = OPEN"
    by (simp add: example_position_def)
  have new_id: "findUnique (\<lambda>u. tx_id u = ''ctransact2'') (transactions example_store) = None"
    by (simp add: findUnique_def example_store_def example_buy_def)
  from close_computes_realized_pnl[OF valid found is_open new_id]
  obtain p' t s' where run: "position_close ''ctransact2'' example_close example_store = (Inr p', s')"
    and txs: "transactions s' = transactions example_store @ [t]"
    and tsv: "pos_totalSellValue p' =
        Some (js_mul (Num (of_int (pos_quantity example_position))) (cl_exitPrice example_close))"
    and pnl: "pos_realizedPnL p' =
        Some (js_sub (js_sub (js_sub
               (js_mul (Num (of_int (pos_quantity example_position))) (cl_exitPrice example_close))
               (pos_totalBuyValue example_position)) (pos_buyFees example_position))
               (withDefault (Num 0) (cl_sellFees example_close)))"
    and ret: "pos_returnPercentage p' =
        Some (js_mul (js_div (js_sub (js_sub (js_sub
               (js_mul (Num (of_int (pos_quantity example_position))) (cl_exitPrice example_close))
               (pos_totalBuyValue example_position)) (pos_buyFees example_position))
               (withDefault (Num 0) (cl_sellFees example_close)))
             (pos_capitalAllocated example_position)) (Num 100))"
    and st: "pos_status p' = CLOSED"
    and t: "tx_type t = SELL" "tx_date t = cl_closeDate example_close"
      "tx_quantity t = pos_quantity example_position" "tx_price t = cl_exitPrice example_close"
      "tx_totalValue t = js_mul (Num (of_int (pos_quantity example_position))) (cl_exitPrice example_close)"
      "tx_fees t = withDefault (Num 0) (cl_sellFees example_close)"
    by blast
  from tsv pnl have exact: "pos_totalSellValue p' = Some (Num 1200)"
    "pos_realizedPnL p' = Some (Num 192)"
    by (simp_all add: example_close_def example_position_def withDefault_def js_sub_def
        to_double_numeral)
  have inputs: "Num (of_int (pos_quantity example_position)) = Num 10"
    "cl_exitPrice example_close = Num 120" "pos_totalBuyValue example_position = Num 1000"
    "pos_buyFees example_position = Num 5" "withDefault (Num 0) (cl_sellFees example_close) = Num 3"
    "pos_capitalAllocated example_position = Num 1005"
    by (simp_all add: example_close_def example_position_def withDefault_def)
  from ret have rounded: "pos_returnPercentage p' = Some (Num (5377432390890145 / 2 ^ 48))"
    by (simp only: inputs example_return)
  then have quotient: "pos_returnPercentage p' = Some (js_mul (js_div (Num 192) (Num 1005)) (Num 100))"
    by (simp only: rounded_quotient rounded_percentage)
  have near: "\<bar>5377432390890145 / 2 ^ 48 - 192 / 1005 * 100\<bar> < (1 / 10 ^ 14 :: real)"
    by simp
  note amounts = exact quotient rounded near
  from txs have txs': "transactions s' = [example_buy, t]"
    by (simp add: example_store_def)
  from t have t': "tx_type t = SELL" "tx_date t = 2000" "tx_quantity t = 10" "tx_price t = Num 120"
    "tx_totalValue t = Num 1200" "tx_fees t = Num 3"
    by (simp_all add: example_close_def example_position_def withDefault_def to_double_numeral)
  show ?thesis
    by (intro conjI valid found is_open new_id exI[of _ p'] exI[of _ t] exI[of _ s'] run amounts st txs' t')
qed

text \<open>
  C3. A close whose position identifier matches no position fails with the error
  \<^verbatim>\<open>Position not found\<close>, and a close of a position whose status is not \<open>OPEN\<close>
  fails with the error \<^verbatim>\<open>Position is not open\<close>; in both cases the database is left
  as it was, so no field of a position changes and no transaction is appended.
\<close>

theorem close_failure_changes_nothing:
  assumes "ClosePositionSchema i"
  shows "(findUnique (\<lambda>q. pos_id q = cl_positionId i) (positions s) = None \<longrightarrow>
            position_close newTxId i s = (Inl (Error ''Position not found''), s))
       \<and> (\<forall>p. findUnique (\<lambda>q. pos_id q = cl_positionId i) (positions s) = Some p \<and>
              pos_status p \<noteq> OPEN \<longrightarrow>
            position_close newTxId i s = (Inl (Error ''Position is not open''), s))"
  using assms
  by (simp add: position_close_def procedure_ok position_close_handler_def Let_def)

text \<open>An unknown identifier, and a position that is already closed.\<close>

theorem close_failure_changes_nothing_witness:
  "ClosePositionSchema example_close
   \<and> findUnique (\<lambda>q. pos_id q = cl_positionId example_close) (positions empty_store) = None
   \<and> position_close ''ctransact9'' example_close empty_store =
        (Inl (Error ''Position not found''), empty_store)
   \<and> findUnique (\<lambda>q. pos_id q = cl_positionId example_close) (positions closed_store) = Some closed_position
   \<and> pos_status closed_position \<noteq> OPEN
   \<and> position_close ''ctransact9'' example_close closed_store =
        (Inl (Error ''Position is not open''), closed_store)"
proof -
  have valid: "ClosePositionSchema example_close"
    by (simp add: ClosePositionSchema_def example_close_def example_ids positive_def
        nonnegative_def opt_def)
  have unknown: "findUnique (\<lambda>q. pos_id q = cl_positionId example_close) (positions empty_store) = None"
    by (simp add: findUnique_def empty_store_def)
  have known: "findUnique (\<lambda>q. pos_id q = cl_positionId example_close) (positions closed_store) = Some closed_position"
    by (simp add: findUnique_def example_close_def closed_store_def closed_position_def
        example_position_def)
  have not_open: "pos_status closed_position \<noteq> OPEN"
    by (simp add: closed_position_def)
  from close_failure_changes_nothing[OF valid, of empty_store "''ctransact9''"] unknown
  have a: "position_close ''ctransact9'' example_close empty_store =
        (Inl (Error ''Position not found''), empty_store)" by simp
  from close_failure_changes_nothing[OF valid, of closed_store "''ctransact9''"] known not_open
  have b: "position_close ''ctransact9'' example_close closed_store =
        (Inl (Error ''Position is not open''), closed_store)" by simp
  show ?thesis by (intro conjI valid unknown a known not_open b)
qed

subsection \<open>Updating a position\<close>

text \<open>
  C5. An update of a position changes the fields that the input provides, among the
  stop loss price, the take profit price, the strategy, the setup type, the time frame,
  the tags and the notes, and nothing else: every other field of the position, in
  particular the total buy value, the capital allocated, the status, the quantity and
  the entry price, keeps its value, the other positions are untouched and so is every
  other table.
\<close>

theorem update_changes_only_provided_fields:
  assumes "UpdatePositionSchema i"
    and "findUnique (\<lambda>q. pos_id q = up_id i) (positions s) = Some p"
  shows "\<exists>p' s'. position_update i s = (Inr p', s')
      \<and> findUnique (\<lambda>q. pos_id q = up_id i) (positions s') = Some p'
      \<and> pos_stopLossPrice p' = (case up_stopLossPrice i of None \<Rightarrow> pos_stopLossPrice p | Some v \<Rightarrow> Some v)
      \<and> pos_takeProfitPrice p' = (case up_takeProfitPrice i of None \<Rightarrow> pos_takeProfitPrice p | Some v \<Rightarrow> Some v)
      \<and> pos_strategy p' = (case up_strategy i of None \<Rightarrow> pos_strategy p | Some v \<Rightarrow> Some v)
      \<and> pos_setupType p' = (case up_setupType i of None \<Rightarrow> pos_setupType p | Some v \<Rightarrow> Some v)
      \<and> pos_timeframe p' = (case up_timeframe i of None \<Rightarrow> pos_timeframe p | Some v \<Rightarrow> Some v)
      \<and> pos_tags p' = (case up_tags i of None \<Rightarrow> pos_tags p | Some v \<Rightarrow> v)
      \<and> pos_notes p' = (case up_notes i of None \<Rightarrow> pos_notes p | Some v \<Rightarrow> Some v)
      \<and> pos_id p' = pos_id p \<and> pos_userId p' = pos_userId p \<and> pos_stockId p' = pos_stockId p
      \<and> pos_status p' = pos_status p \<and> pos_positionType p' = pos_positionType p
      \<and> pos_openDate p' = pos_openDate p \<and> pos_entryPrice p' = pos_entryPrice p
      \<and> pos_quantity p' = pos_quantity p \<and> pos_buyFees p' = pos_buyFees p
      \<and> pos_totalBuyValue p' = pos_totalBuyValue p
      \<and> pos_capitalAllocated p' = pos_capitalAllocated p
      \<and> pos_closeDate p' = pos_closeDate p \<and> pos_exitPrice p' = pos_exitPrice p
      \<and> pos_totalSellValue p' = pos_totalSellValue p \<and> pos_sellFees p' = pos_sellFees p
      \<and> pos_realizedPnL p' = pos_realizedPnL p
      \<and> pos_returnPercentage p' = pos_returnPercentage p
      \<and> pos_riskAmount p' = pos_riskAmount p \<and> pos_riskPercentage p' = pos_riskPercentage p
      \<and> pos_openReason p' = pos_openReason p
      \<and> pos_tradeGrade p' = pos_tradeGrade p \<and> pos_lessonsLearned p' = pos_lessonsLearned p
      \<and> length (positions s') = length (positions s)
      \<and> filter (\<lambda>q. pos_id q \<noteq> up_id i) (positions s') = filter (\<lambda>q. pos_id q \<noteq> up_id i) (positions s)
      \<and> s' = s\<lparr>positions := positions s'\<rparr>"
proof -
  let ?f = "\<lambda>p. p\<lparr> pos_stopLossPrice := merge (up_stopLossPrice i) (pos_stopLossPrice p),
               pos_takeProfitPrice := merge (up_takeProfitPrice i) (pos_takeProfitPrice p),
               pos_strategy := merge (up_strategy i) (pos_strategy p),
               pos_setupType := merge (up_setupType i) (pos_setupType p),
               pos_timeframe := merge (up_timeframe i) (pos_timeframe p),
               pos_tags := withDefault (pos_tags p) (up_tags i),
               pos_notes := merge (up_notes i) (pos_notes p) \<rparr>"
  let ?s' = "s\<lparr>positions := update_row (\<lambda>q. pos_id q = up_id i) ?f (positions s)\<rparr>"
  have pid: "pos_id p = up_id i"
    using assms(2) by (rule findUnique_Some_holds)
  have run: "position_update i s = (Inr (?f p), ?s')"
    using assms
    by (simp add: position_update_def procedure_ok position_update_handler_def position_update_row_def)
  have found: "findUnique (\<lambda>q. pos_id q = up_id i) (positions ?s') = Some (?f p)"
    using findUnique_update_row[OF assms(2), of ?f] pid by simp
  have len: "length (positions ?s') = length (positions s)"
    by (simp add: length_update_row)
  have others: "filter (\<lambda>q. pos_id q \<noteq> up_id i) (positions ?s') = filter (\<lambda>q. pos_id q \<noteq> up_id i) (positions s)"
    by (simp add: filter_update_row_others)
  have rest: "?s' = s\<lparr>positions := positions ?s'\<rparr>" by simp
  show ?thesis
    apply (rule exI[of _ "?f p"], rule exI[of _ ?s'])
    apply (intro conjI run found len others rest)
    apply (simp_all add: merge_def withDefault_def)
    done
qed

text \<open>An update of the stop loss price and the tags.\<close>

theorem update_changes_only_provided_fields_witness:
  "UpdatePositionSchema example_update
   \<and> findUnique (\<lambda>q. pos_id q = up_id example_update) (positions example_store) = Some example_position
   \<and> (\<exists>p' s'. position_update example_update example_store = (Inr p', s')
       \<and> pos_stopLossPrice p' = Some (Num 95) \<and> pos_tags p' = [''swing''] \<and> pos_notes p' = None
       \<and> pos_totalBuyValue p' = Num 1000 \<and> pos_capitalAllocated p' = Num 1005
       \<and> pos_status p' = OPEN \<and> pos_quantity p' = 10 \<and> pos_entryPrice p' = Num 100
       \<and> transactions s' = [example_buy])"
proof -
  have valid: "UpdatePositionSchema example_update"
    by (simp add: UpdatePositionSchema_def example_update_def example_ids positive_def opt_def)
  have found: "findUnique (\<lambda>q. pos_id q = up_id example_update) (positions example_store) = Some example_position"
    by (simp add: findUnique_def example_update_def example_store_def example_position_def)
  from update_changes_only_provided_fields[OF valid found]
  obtain p' s' where run: "position_update example_update example_store = (Inr p', s')"
    and changed: "pos_stopLossPrice p' =
        (case up_stopLossPrice example_update of None \<Rightarrow> pos_stopLossPrice example_position | Some v \<Rightarrow> Some v)"
      "pos_tags p' = (case up_tags example_update of None \<Rightarrow> pos_tags example_position | Some v \<Rightarrow> v)"
      "pos_notes p' = (case up_notes example_update of None \<Rightarrow> pos_notes example_position | Some v \<Rightarrow> Some v)"
    and kept: "pos_totalBuyValue p' = pos_totalBuyValue example_position"
      "pos_capitalAllocated p' = pos_capitalAllocated example_position"
      "pos_status p' = pos_status example_position"
      "pos_quantity p' = pos_quantity example_position"
      "pos_entryPrice p' = pos_entryPrice example_position"
    and rest: "s' = example_store\<lparr>positions := positions s'\<rparr>"
    by blast
  from changed have changed': "pos_stopLossPrice p' = Some (Num 95)" "pos_tags p' = [''swing'']"
    "pos_notes p' = None"
    by (simp_all add: example_update_def example_position_def)
  from kept have kept': "pos_totalBuyValue p' = Num 1000" "pos_capitalAllocated p' = Num 1005"
    "pos_status p' = OPEN" "pos_quantity p' = 10" "pos_entryPrice p' = Num 100"
    by (simp_all add: example_position_def)
  have "transactions s' = transactions (example_store\<lparr>positions := positions s'\<rparr>)"
    using rest by simp
  then have txs: "transactions s' = [example_buy]"
    by (simp add: example_store_def)
  show ?thesis
    by (intro conjI valid found exI[of _ p'] exI[of _ s'] run changed' kept' txs)
qed

subsection \<open>Updating a transaction\<close>

text \<open>
  C8. An update of a transaction that provides a quantity or a price fails with the error
  \<^verbatim>\<open>Transaction not found\<close> when the identifier is unknown, and otherwise stores the
  provided quantity and price, keeps the ones that are not provided, and stores their
  product, rounded to a double, as the total value. An update that provides neither
  merges the other fields and leaves the quantity, the price and the total value as
  they were.
\<close>

theorem transaction_update_recomputes_total:
  assumes "UpdateTransactionSchema i"
  shows "(ut_quantity i \<noteq> None \<or> ut_price i \<noteq> None \<longrightarrow>
            (findUnique (\<lambda>t. tx_id t = ut_id i) (transactions s) = None \<longrightarrow>
               transaction_update i s = (Inl (Error ''Transaction not found''), s))
          \<and> (\<forall>t. findUnique (\<lambda>t. tx_id t = ut_id i) (transactions s) = Some t \<longrightarrow>
               (\<exists>t' s'. transaction_update i s = (Inr t', s')
                 \<and> findUnique (\<lambda>t. tx_id t = ut_id i) (transactions s') = Some t'
                 \<and> tx_quantity t' = (case ut_quantity i of None \<Rightarrow> tx_quantity t | Some q \<Rightarrow> q)
                 \<and> tx_price t' = (case ut_price i of None \<Rightarrow> tx_price t | Some p \<Rightarrow> p)
                 \<and> tx_totalValue t' = js_mul (Num (of_int (tx_quantity t'))) (tx_price t'))))
       \<and> (ut_quantity i = None \<and> ut_price i = None \<longrightarrow>
            (\<forall>t. findUnique (\<lambda>t. tx_id t = ut_id i) (transactions s) = Some t \<longrightarrow>
               (\<exists>t' s'. transaction_update i s = (Inr t', s')
                 \<and> findUnique (\<lambda>t. tx_id t = ut_id i) (transactions s') = Some t'
                 \<and> tx_totalValue t' = tx_totalValue t
                 \<and> tx_quantity t' = tx_quantity t \<and> tx_price t' = tx_price t
                 \<and> tx_id t' = tx_id t \<and> tx_positionId t' = tx_positionId t \<and> tx_type t' = tx_type t
                 \<and> tx_date t' = (case ut_date i of None \<Rightarrow> tx_date t | Some d \<Rightarrow> d)
                 \<and> tx_fees t' = (case ut_fees i of None \<Rightarrow> tx_fees t | Some f \<Rightarrow> f)
                 \<and> tx_executionTime t' = (case ut_executionTime i of None \<Rightarrow> tx_executionTime t | Some d \<Rightarrow> Some d)
                 \<and> tx_brokerRef t' = (case ut_brokerRef i of None \<Rightarrow> tx_brokerRef t | Some b \<Rightarrow> Some b)
                 \<and> tx_orderType t' = (case ut_orderType i of None \<Rightarrow> tx_orderType t | Some b \<Rightarrow> Some b)
                 \<and> tx_notes t' = (case ut_notes i of None \<Rightarrow> tx_notes t | Some b \<Rightarrow> Some b))))"
proof (intro conjI impI allI)
  assume "ut_quantity i \<noteq> None \<or> ut_price i \<noteq> None"
    and "findUnique (\<lambda>t. tx_id t = ut_id i) (transactions s) = None"
  then show "transaction_update i s = (Inl (Error ''Transaction not found''), s)"
    using assms
    by (simp add: transaction_update_def procedure_ok transaction_update_handler_def Let_def)
next
  fix t
  assume prov: "ut_quantity i \<noteq> None \<or> ut_price i \<noteq> None"
    and found: "findUnique (\<lambda>t. tx_id t = ut_id i) (transactions s) = Some t"
  let ?q = "withDefault (tx_quantity t) (ut_quantity i)"
  let ?p = "withDefault (tx_price t) (ut_price i)"
  let ?f = "\<lambda>u. (otherUpdates i u)
                \<lparr> tx_quantity := withDefault (tx_quantity u) (ut_quantity i),
                  tx_price := withDefault (tx_price u) (ut_price i),
                  tx_totalValue := js_mul (Num (of_int ?q)) ?p \<rparr>"
  let ?s' = "s\<lparr>transactions := update_row (\<lambda>t. tx_id t = ut_id i) ?f (transactions s)\<rparr>"
  have tid: "tx_id t = ut_id i" using found by (rule findUnique_Some_holds)
  have run: "transaction_update i s = (Inr (?f t), ?s')"
    using assms prov found
    by (simp add: transaction_update_def procedure_ok transaction_update_handler_def Let_def
        transaction_update_row_def)
  have again: "findUnique (\<lambda>t. tx_id t = ut_id i) (transactions ?s') = Some (?f t)"
    using findUnique_update_row[OF found, of ?f] tid by (simp add: otherUpdates_def)
  have fields: "tx_quantity (?f t) = (case ut_quantity i of None \<Rightarrow> tx_quantity t | Some q \<Rightarrow> q)"
    "tx_price (?f t) = (case ut_price i of None \<Rightarrow> tx_price t | Some p \<Rightarrow> p)"
    "tx_totalValue (?f t) = js_mul (Num (of_int (tx_quantity (?f t)))) (tx_price (?f t))"
    by (simp_all add: withDefault_def)
  show "\<exists>t' s'. transaction_update i s = (Inr t', s')
       \<and> findUnique (\<lambda>t. tx_id t = ut_id i) (transactions s') = Some t'
       \<and> tx_quantity t' = (case ut_quantity i of None \<Rightarrow> tx_quantity t | Some q \<Rightarrow> q)
       \<and> tx_price t' = (case ut_price i of None \<Rightarrow> tx_price t | Some p \<Rightarrow> p)
       \<and> tx_totalValue t' = js_mul (Num (of_int (tx_quantity t'))) (tx_price t')"
    by (rule exI[of _ "?f t"], rule exI[of _ ?s']) (intro conjI run again fields)
next
  fix t
  assume none: "ut_quantity i = None \<and> ut_price i = None"
    and found: "findUnique (\<lambda>t. tx_id t = ut_id i) (transactions s) = Some t"
  let ?f = "otherUpdates i"
  let ?s' = "s\<lparr>transactions := update_row (\<lambda>t. tx_id t = ut_id i) ?f (transactions s)\<rparr>"
  have tid: "tx_id t = ut_id i" using found by (rule findUnique_Some_holds)
  have run: "transaction_update i s = (Inr (?f t), ?s')"
    using assms none found
    by (simp add: transaction_update_def procedure_ok transaction_update_handler_def Let_def
        transaction_update_row_def)
  have again: "findUnique (\<lambda>t. tx_id t = ut_id i) (transactions ?s') = Some (?f t)"
    using findUnique_update_row[OF found, of ?f] tid by (simp add: otherUpdates_def)
  show "\<exists>t' s'. transaction_update i s = (Inr t', s')
                 \<and> findUnique (\<lambda>t. tx_id t = ut_id i) (transactions s') = Some t'
                 \<and> tx_totalValue t' = tx_totalValue t
                 \<and> tx_quantity t' = tx_quantity t \<and> tx_price t' = tx_price t
                 \<and> tx_id t' = tx_id t \<and> tx_positionId t' = tx_positionId t \<and> tx_type t' = tx_type t
                 \<and> tx_date t' = (case ut_date i of None \<Rightarrow> tx_date t | Some d \<Rightarrow> d)
                 \<and> tx_fees t' = (case ut_fees i of None \<Rightarrow> tx_fees t | Some f \<Rightarrow> f)
                 \<and> tx_executionTime t' = (case ut_executionTime i of None \<Rightarrow> tx_executionTime t | Some d \<Rightarrow> Some d)
                 \<and> tx_brokerRef t' = (case ut_brokerRef i of None \<Rightarrow> tx_brokerRef t | Some b \<Rightarrow> Some b)
                 \<and> tx_orderType t' = (case ut_orderType i of None \<Rightarrow> tx_orderType t | Some b \<Rightarrow> Some b)
                 \<and> tx_notes t' = (case ut_notes i of None \<Rightarrow> tx_notes t | Some b \<Rightarrow> Some b)"
    apply (rule exI[of _ "?f t"], rule exI[of _ ?s'])
    apply (intro conjI run again)
    apply (simp_all add: otherUpdates_def withDefault_def merge_def)
    done
qed

text \<open>A new quantity, an unknown identifier, and an update of the fees and notes only.\<close>

theorem transaction_update_recomputes_total_witness:
  "UpdateTransactionSchema example_requantify \<and> UpdateTransactionSchema example_renote
   \<and> UpdateTransactionSchema (example_requantify\<lparr>ut_id := ''ctransact9''\<rparr>)
   \<and> (\<exists>t' s'. transaction_update example_requantify example_store = (Inr t', s')
         \<and> tx_quantity t' = 20 \<and> tx_price t' = Num 100 \<and> tx_totalValue t' = Num 2000)
   \<and> transaction_update (example_requantify\<lparr>ut_id := ''ctransact9''\<rparr>) example_store =
        (Inl (Error ''Transaction not found''), example_store)
   \<and> (\<exists>t' s'. transaction_update example_renote example_store = (Inr t', s')
         \<and> tx_quantity t' = 10 \<and> tx_price t' = Num 100 \<and> tx_totalValue t' = Num 1000
         \<and> tx_fees t' = Num 7 \<and> tx_notes t' = Some ''filled at the open'')"
proof -
  have v1: "UpdateTransactionSchema example_requantify"
    by (simp add: UpdateTransactionSchema_def example_requantify_def example_ids opt_def)
  have v2: "UpdateTransactionSchema example_renote"
    by (simp add: UpdateTransactionSchema_def example_renote_def example_ids opt_def nonnegative_def)
  have v3: "UpdateTransactionSchema (example_requantify\<lparr>ut_id := ''ctransact9''\<rparr>)"
    by (simp add: UpdateTransactionSchema_def example_requantify_def example_ids opt_def)
  have found1: "findUnique (\<lambda>t. tx_id t = ut_id example_requantify) (transactions example_store) = Some example_buy"
    by (simp add: findUnique_def example_requantify_def example_store_def example_buy_def)
  have found2: "findUnique (\<lambda>t. tx_id t = ut_id example_renote) (transactions example_store) = Some example_buy"
    by (simp add: findUnique_def example_renote_def example_store_def example_buy_def)
  have missing: "findUnique (\<lambda>t. tx_id t = ut_id (example_requantify\<lparr>ut_id := ''ctransact9''\<rparr>))
      (transactions example_store) = None"
    by (simp add: findUnique_def example_store_def example_buy_def)
  have provided: "ut_quantity example_requantify \<noteq> None \<or> ut_price example_requantify \<noteq> None"
    "ut_quantity (example_requantify\<lparr>ut_id := ''ctransact9''\<rparr>) \<noteq> None \<or>
     ut_price (example_requantify\<lparr>ut_id := ''ctransact9''\<rparr>) \<noteq> None"
    by (simp_all add: example_requantify_def)
  have neither: "ut_quantity example_renote = None \<and> ut_price example_renote = None"
    by (simp add: example_renote_def)
  from transaction_update_recomputes_total[OF v1, of example_store] provided(1) found1
  obtain t' s' where "transaction_update example_requantify example_store = (Inr t', s')"
    and "tx_quantity t' = (case ut_quantity example_requantify of None \<Rightarrow> tx_quantity example_buy | Some q \<Rightarrow> q)"
    and "tx_price t' = (case ut_price example_requantify of None \<Rightarrow> tx_price example_buy | Some p \<Rightarrow> p)"
    and "tx_totalValue t' = js_mul (Num (of_int (tx_quantity t'))) (tx_price t')"
    by blast
  then have a: "\<exists>t' s'. transaction_update example_requantify example_store = (Inr t', s')
         \<and> tx_quantity t' = 20 \<and> tx_price t' = Num 100 \<and> tx_totalValue t' = Num 2000"
    by (simp add: example_requantify_def example_buy_def to_double_numeral)
  from transaction_update_recomputes_total[OF v3, of example_store] provided(2) missing
  have b: "transaction_update (example_requantify\<lparr>ut_id := ''ctransact9''\<rparr>) example_store =
        (Inl (Error ''Transaction not found''), example_store)"
    by blast
  from transaction_update_recomputes_total[OF v2, of example_store] neither found2
  obtain u' s'' where "transaction_update example_renote example_store = (Inr u', s'')"
    and "tx_totalValue u' = tx_totalValue example_buy"
    and "tx_quantity u' = tx_quantity example_buy" and "tx_price u' = tx_price example_buy"
    and "tx_fees u' = (case ut_fees example_renote of None \<Rightarrow> tx_fees example_buy | Some f \<Rightarrow> f)"
    and "tx_notes u' = (case ut_notes example_renote of None \<Rightarrow> tx_notes example_buy | Some b \<Rightarrow> Some b)"
    by blast
  then have c: "\<exists>t' s'. transaction_update example_renote example_store = (Inr t', s')
         \<and> tx_quantity t' = 10 \<and> tx_price t' = Num 100 \<and> tx_totalValue t' = Num 1000
         \<and> tx_fees t' = Num 7 \<and> tx_notes t' = Some ''filled at the open''"
    by (simp add: example_renote_def example_buy_def)
  show ?thesis by (intro conjI v1 v2 v3 a b c)
qed

subsection \<open>Deleting\<close>

text \<open>
  C6. Deleting a position that owns a transaction, an exchange that owns a stock, a stock
  that owns a position or a user that owns a position fails with the error that names
  the conflict (over REST, a response with status 400 and that error) and leaves the
  database as it was; deleting an existing one that owns no such row succeeds and
  removes it.
\<close>

theorem delete_blocked_by_dependent_rows:
  assumes "cuid i"
  shows "((\<exists>t \<in> set (transactions s). tx_positionId t = i) \<longrightarrow>
            position_delete i s = (Inl (Error ''Cannot delete position with existing transactions''), s))
       \<and> (\<not> (\<exists>t \<in> set (transactions s). tx_positionId t = i) \<and>
            findUnique (\<lambda>q. pos_id q = i) (positions s) \<noteq> None \<longrightarrow>
            (\<exists>s'. position_delete i s = (Inr True, s') \<and>
                  removes (\<lambda>q. pos_id q = i) (positions s) (positions s') \<and>
                  s' = s\<lparr>positions := positions s'\<rparr>))
       \<and> ((\<exists>k \<in> set (stocks s). stk_exchangeId k = i) \<longrightarrow>
            exchange_delete i s = (Inl (Error ''Cannot delete exchange with existing stocks''), s) \<and>
            (\<exists>res. rest_exchange_delete i s = (res, s) \<and> res_status res = 400 \<and>
                   res_success res = Some False \<and>
                   res_error res = Some ''Cannot delete exchange with existing stocks''))
       \<and> (\<not> (\<exists>k \<in> set (stocks s). stk_exchangeId k = i) \<and>
            findUnique (\<lambda>e. exc_id e = i) (exchanges s) \<noteq> None \<longrightarrow>
            (\<exists>s'. exchange_delete i s = (Inr True, s') \<and>
                  removes (\<lambda>e. exc_id e = i) (exchanges s) (exchanges s') \<and>
                  s' = s\<lparr>exchanges := exchanges s'\<rparr> \<and>
                  (\<exists>res. rest_exchange_delete i s = (res, s') \<and> res_status res = 200 \<and>
                         res_success res = Some True)))
       \<and> ((\<exists>p \<in> set (positions s). pos_stockId p = i) \<longrightarrow>
            stock_delete i s = (Inl (Error ''Cannot delete stock with existing positions''), s))
       \<and> (\<not> (\<exists>p \<in> set (positions s). pos_stockId p = i) \<and>
            findUnique (\<lambda>k. stk_id k = i) (stocks s) \<noteq> None \<longrightarrow>
            (\<exists>s'. stock_delete i s = (Inr True, s') \<and>
                  removes (\<lambda>k. stk_id k = i) (stocks s) (stocks s') \<and>
                  s' = s\<lparr>stocks := stocks s',
                         priceHistory := filter (\<lambda>h. ph_stockId h \<noteq> i) (priceHistory s)\<rparr>))
       \<and> ((\<exists>p \<in> set (positions s). pos_userId p = i) \<longrightarrow>
            user_delete i s = (Inl (Error ''Cannot delete user with existing positions''), s) \<and>
            (\<exists>res. rest_user_delete i s = (res, s) \<and> res_status res = 400 \<and>
                   res_success res = Some False \<and>
                   res_error res = Some ''Cannot delete user with existing positions''))
       \<and> (\<not> (\<exists>p \<in> set (positions s). pos_userId p = i) \<and>
            findUnique (\<lambda>u. usr_id u = i) (users s) \<noteq> None \<longrightarrow>
            (\<exists>s'. user_delete i s = (Inr True, s') \<and>
                  removes (\<lambda>u. usr_id u = i) (users s) (users s') \<and>
                  s' = s\<lparr>users := users s'\<rparr> \<and>
                  (\<exists>res. rest_user_delete i s = (res, s') \<and> res_status res = 200 \<and>
                         res_success res = Some True)))"
proof (intro conjI impI)
  assume "\<exists>t \<in> set (transactions s). tx_positionId t = i"
  then show "position_delete i s = (Inl (Error ''Cannot delete position with existing transactions''), s)"
    using assms
    by (simp add: position_delete_def procedure_ok position_delete_handler_def Let_def count_where_pos)
next
  assume "\<not> (\<exists>t \<in> set (transactions s). tx_positionId t = i) \<and>
            findUnique (\<lambda>q. pos_id q = i) (positions s) \<noteq> None"
  then show "\<exists>s'. position_delete i s = (Inr True, s') \<and>
                  removes (\<lambda>q. pos_id q = i) (positions s) (positions s') \<and>
                  s' = s\<lparr>positions := positions s'\<rparr>"
    using assms removes_delete_row[of "\<lambda>q. pos_id q = i" "positions s"] count_where_pos[of "\<lambda>t. tx_positionId t = i" "transactions s"]
    by (auto simp add: position_delete_def procedure_ok position_delete_handler_def Let_def)
next
  assume "\<exists>k \<in> set (stocks s). stk_exchangeId k = i"
  then show "exchange_delete i s = (Inl (Error ''Cannot delete exchange with existing stocks''), s)"
    using assms
    by (simp add: exchange_delete_def procedure_ok exchange_delete_handler_def Let_def count_where_pos)
next
  assume "\<exists>k \<in> set (stocks s). stk_exchangeId k = i"
  then show "\<exists>res. rest_exchange_delete i s = (res, s) \<and> res_status res = 400 \<and>
                   res_success res = Some False \<and>
                   res_error res = Some ''Cannot delete exchange with existing stocks''"
    using assms
    by (simp add: rest_exchange_delete_def validateCuid_def Let_def count_where_pos)
next
  assume "\<not> (\<exists>k \<in> set (stocks s). stk_exchangeId k = i) \<and>
            findUnique (\<lambda>e. exc_id e = i) (exchanges s) \<noteq> None"
  then show "\<exists>s'. exchange_delete i s = (Inr True, s') \<and>
                  removes (\<lambda>e. exc_id e = i) (exchanges s) (exchanges s') \<and>
                  s' = s\<lparr>exchanges := exchanges s'\<rparr> \<and>
                  (\<exists>res. rest_exchange_delete i s = (res, s') \<and> res_status res = 200 \<and>
                         res_success res = Some True)"
    using assms removes_delete_row[of "\<lambda>e. exc_id e = i" "exchanges s"] count_where_pos[of "\<lambda>k. stk_exchangeId k = i" "stocks s"]
    by (auto simp add: exchange_delete_def procedure_ok exchange_delete_handler_def Let_def
        rest_exchange_delete_def validateCuid_def)
next
  assume "\<exists>p \<in> set (positions s). pos_stockId p = i"
  then show "stock_delete i s = (Inl (Error ''Cannot delete stock with existing positions''), s)"
    using assms
    by (simp add: stock_delete_def procedure_ok stock_delete_handler_def Let_def count_where_pos)
next
  assume "\<not> (\<exists>p \<in> set (positions s). pos_stockId p = i) \<and>
            findUnique (\<lambda>k. stk_id k = i) (stocks s) \<noteq> None"
  then show "\<exists>s'. stock_delete i s = (Inr True, s') \<and>
                  removes (\<lambda>k. stk_id k = i) (stocks s) (stocks s') \<and>
                  s' = s\<lparr>stocks := stocks s',
                         priceHistory := filter (\<lambda>h. ph_stockId h \<noteq> i) (priceHistory s)\<rparr>"
    using assms removes_delete_row[of "\<lambda>k. stk_id k = i" "stocks s"] count_where_pos[of "\<lambda>p. pos_stockId p = i" "positions s"]
    by (auto simp add: stock_delete_def procedure_ok stock_delete_handler_def Let_def deleteMany_def)
next
  assume "\<exists>p \<in> set (positions s). pos_userId p = i"
  then show "user_delete i s = (Inl (Error ''Cannot delete user with existing positions''), s)"
    using assms
    by (simp add: user_delete_def procedure_ok user_delete_handler_def Let_def count_where_pos)
next
  assume "\<exists>p \<in> set (positions s). pos_userId p = i"
  then show "\<exists>res. rest_user_delete i s = (res, s) \<and> res_status res = 400 \<and>
                   res_success res = Some False \<and>
                   res_error res = Some ''Cannot delete user with existing positions''"
    using assms
    by (simp add: rest_user_delete_def validateCuid_def Let_def count_where_pos)
next
  assume "\<not> (\<exists>p \<in> set (positions s). pos_userId p = i) \<and>
            findUnique (\<lambda>u. usr_id u = i) (users s) \<noteq> None"
  then show "\<exists>s'. user_delete i s = (Inr True, s') \<and>
                  removes (\<lambda>u. usr_id u = i) (users s) (users s') \<and>
                  s' = s\<lparr>users := users s'\<rparr> \<and>
                  (\<exists>res. rest_user_delete i s = (res, s') \<and> res_status res = 200 \<and>
                         res_success res = Some True)"
    using assms removes_delete_row[of "\<lambda>u. usr_id u = i" "users s"] count_where_pos[of "\<lambda>p. pos_userId p = i" "positions s"]
    by (auto simp add: user_delete_def procedure_ok user_delete_handler_def Let_def
        rest_user_delete_def validateCuid_def)
qed

text \<open>In the example database each kind of row has one that is owned and one that is free.\<close>

theorem delete_blocked_by_dependent_rows_witness:
  "position_delete ''cposition1'' example_store =
     (Inl (Error ''Cannot delete position with existing transactions''), example_store)
   \<and> (\<exists>s'. position_delete ''cposition2'' example_store = (Inr True, s') \<and> length (positions s') = 1)
   \<and> exchange_delete ''cexchange1'' example_store =
       (Inl (Error ''Cannot delete exchange with existing stocks''), example_store)
   \<and> (\<exists>res. rest_exchange_delete ''cexchange1'' example_store = (res, example_store) \<and>
          res_status res = 400)
   \<and> (\<exists>s'. exchange_delete ''cexchange2'' example_store = (Inr True, s') \<and> length (exchanges s') = 1)
   \<and> stock_delete ''cstock0001'' example_store =
       (Inl (Error ''Cannot delete stock with existing positions''), example_store)
   \<and> (\<exists>s'. stock_delete ''cstock0002'' example_store = (Inr True, s') \<and> length (stocks s') = 1)
   \<and> user_delete ''cuser00001'' example_store =
       (Inl (Error ''Cannot delete user with existing positions''), example_store)
   \<and> (\<exists>res. rest_user_delete ''cuser00001'' example_store = (res, example_store) \<and>
          res_status res = 400)
   \<and> (\<exists>s'. user_delete ''cuser00002'' example_store = (Inr True, s') \<and> length (users s') = 1)"
proof -
  have owns_transaction: "\<exists>t \<in> set (transactions example_store). tx_positionId t = ''cposition1''"
    by (simp add: example_store_def example_buy_def)
  have owns_none: "\<not> (\<exists>t \<in> set (transactions example_store). tx_positionId t = ''cposition2'') \<and>
      findUnique (\<lambda>q. pos_id q = ''cposition2'') (positions example_store) \<noteq> None"
    by (simp add: findUnique_def example_store_def example_buy_def example_position_def
        idle_position_def)
  have owns_stock: "\<exists>k \<in> set (stocks example_store). stk_exchangeId k = ''cexchange1''"
    by (simp add: example_store_def)
  have no_stock: "\<not> (\<exists>k \<in> set (stocks example_store). stk_exchangeId k = ''cexchange2'') \<and>
      findUnique (\<lambda>e. exc_id e = ''cexchange2'') (exchanges example_store) \<noteq> None"
    by (simp add: findUnique_def example_store_def)
  have stock_held: "\<exists>p \<in> set (positions example_store). pos_stockId p = ''cstock0001''"
    by (simp add: example_store_def example_position_def)
  have stock_free: "\<not> (\<exists>p \<in> set (positions example_store). pos_stockId p = ''cstock0002'') \<and>
      findUnique (\<lambda>k. stk_id k = ''cstock0002'') (stocks example_store) \<noteq> None"
    by (simp add: findUnique_def example_store_def example_position_def idle_position_def)
  have user_holds: "\<exists>p \<in> set (positions example_store). pos_userId p = ''cuser00001''"
    by (simp add: example_store_def example_position_def)
  have user_free: "\<not> (\<exists>p \<in> set (positions example_store). pos_userId p = ''cuser00002'') \<and>
      findUnique (\<lambda>u. usr_id u = ''cuser00002'') (users example_store) \<noteq> None"
    by (simp add: findUnique_def example_store_def example_position_def idle_position_def)
  have sizes: "length (positions example_store) = 2" "length (exchanges example_store) = 2"
    "length (stocks example_store) = 2" "length (users example_store) = 2"
    by (simp_all add: example_store_def)
  note p1 = delete_blocked_by_dependent_rows[OF example_ids(5), of example_store]
  note p2 = delete_blocked_by_dependent_rows[OF example_ids(6), of example_store]
  note e1 = delete_blocked_by_dependent_rows[OF example_ids(7), of example_store]
  note e2 = delete_blocked_by_dependent_rows[OF example_ids(8), of example_store]
  note k1 = delete_blocked_by_dependent_rows[OF example_ids(3), of example_store]
  note k2 = delete_blocked_by_dependent_rows[OF example_ids(4), of example_store]
  note u1 = delete_blocked_by_dependent_rows[OF example_ids(1), of example_store]
  note u2 = delete_blocked_by_dependent_rows[OF example_ids(2), of example_store]
  have a: "position_delete ''cposition1'' example_store =
     (Inl (Error ''Cannot delete position with existing transactions''), example_store)"
    using p1[THEN conjunct1] owns_transaction by (rule mp)
  from p2[THEN conjunct2, THEN conjunct1] owns_none
  obtain s1 where "position_delete ''cposition2'' example_store = (Inr True, s1)"
    and "removes (\<lambda>q. pos_id q = ''cposition2'') (positions example_store) (positions s1)"
    by blast
  then have b: "\<exists>s'. position_delete ''cposition2'' example_store = (Inr True, s') \<and> length (positions s') = 1"
    by (simp add: removes_def sizes)
  from e1[THEN conjunct2, THEN conjunct2, THEN conjunct1] owns_stock
  have c: "exchange_delete ''cexchange1'' example_store =
       (Inl (Error ''Cannot delete exchange with existing stocks''), example_store)"
    and c': "\<exists>res. rest_exchange_delete ''cexchange1'' example_store = (res, example_store) \<and>
          res_status res = 400"
    by blast+
  from e2[THEN conjunct2, THEN conjunct2, THEN conjunct2, THEN conjunct1] no_stock
  obtain s2 where "exchange_delete ''cexchange2'' example_store = (Inr True, s2)"
    and "removes (\<lambda>e. exc_id e = ''cexchange2'') (exchanges example_store) (exchanges s2)"
    by blast
  then have d: "\<exists>s'. exchange_delete ''cexchange2'' example_store = (Inr True, s') \<and> length (exchanges s') = 1"
    by (simp add: removes_def sizes)
  have e: "stock_delete ''cstock0001'' example_store =
       (Inl (Error ''Cannot delete stock with existing positions''), example_store)"
    using k1[THEN conjunct2, THEN conjunct2, THEN conjunct2, THEN conjunct2, THEN conjunct1] stock_held
    by (rule mp)
  from k2[THEN conjunct2, THEN conjunct2, THEN conjunct2, THEN conjunct2, THEN conjunct2, THEN conjunct1]
    stock_free
  obtain s3 where "stock_delete ''cstock0002'' example_store = (Inr True, s3)"
    and "removes (\<lambda>k. stk_id k = ''cstock0002'') (stocks example_store) (stocks s3)"
    by blast
  then have f: "\<exists>s'. stock_delete ''cstock0002'' example_store = (Inr True, s') \<and> length (stocks s') = 1"
    by (simp add: removes_def sizes)
  from u1[THEN conjunct2, THEN conjunct2, THEN conjunct2, THEN conjunct2, THEN conjunct2,
      THEN conjunct2, THEN conjunct1] user_holds
  have g: "user_delete ''cuser00001'' example_store =
       (Inl (Error ''Cannot delete user with existing positions''), example_store)"
    and g': "\<exists>res. rest_user_delete ''cuser00001'' example_store = (res, example_store) \<and>
          res_status res = 400"
    by blast+
  from u2[THEN conjunct2, THEN conjunct2, THEN conjunct2, THEN conjunct2, THEN conjunct2,
      THEN conjunct2, THEN conjunct2] user_free
  obtain s4 where "user_delete ''cuser00002'' example_store = (Inr True, s4)"
    and "removes (\<lambda>u. usr_id u = ''cuser00002'') (users example_store) (users s4)"
    by blast
  then have h: "\<exists>s'. user_delete ''cuser00002'' example_store = (Inr True, s') \<and> length (users s') = 1"
    by (simp add: removes_def sizes)
  show ?thesis by (intro conjI a b c c' d e f g g' h)
qed

subsection \<open>Lists\<close>

lemma length_page: "0 < L \<Longrightarrow> int (length (page L off rows)) \<le> L"
  by (simp add: page_def)

lemma when_present_case: "when_present x c = (case x of None \<Rightarrow> True | Some v \<Rightarrow> c v)"
  by (simp add: when_present_def)

lemma when_string_cuid: "opt cuid x \<Longrightarrow> when_string x c = (case x of None \<Rightarrow> True | Some v \<Rightarrow> c v)"
  by (auto simp: when_string_def opt_def cuid_nonempty split: option.splits)

lemma when_string_nonempty: "when_string x c = (case nonempty x of None \<Rightarrow> True | Some v \<Rightarrow> c v)"
  by (auto simp: when_string_def nonempty_def split: option.splits)

lemma limit_pos: "limit_ok mx l \<Longrightarrow> 0 < d \<Longrightarrow> 0 < withDefault d l"
  by (auto simp: limit_ok_def opt_def withDefault_def split: option.splits)

lemma limit_pos_rest: "limit_ok mx l \<Longrightarrow> 0 < d \<Longrightarrow> 0 < number_or d l"
  by (auto simp: limit_ok_def opt_def number_or_def split: option.splits)

lemma position_where_matches: "GetPositionsSchema i \<Longrightarrow> position_where i = position_matches i"
  by (rule ext) (simp add: GetPositionsSchema_def position_where_def position_matches_def
      when_present_case when_string_cuid)

lemma transaction_where_matches:
  "GetTransactionsSchema i \<Longrightarrow> transaction_where s i = transaction_matches s i"
  by (rule ext) (simp add: GetTransactionsSchema_def transaction_where_def transaction_matches_def
      when_present_case when_string_cuid)

lemma stock_where_matches:
  "ListStocksSchema i \<Longrightarrow> stock_where contains i = stock_matches contains (without_blanks i)"
  by (rule ext) (auto simp add: ListStocksSchema_def stock_where_def stock_matches_def without_blanks_def
      when_present_def when_string_def nonempty_def opt_def cuid_nonempty split: option.splits)

text \<open>
  C9, as amended. Every list operation (positions, transactions, users over both
  surfaces, stocks, watchlist) with limit \<open>L\<close> and offset \<open>O\<close> returns at most \<open>L\<close>
  items, the number of rows that match all provided filters as the total, and
  \<open>hasMore = (O + L < total)\<close>, where the list of stocks counts an empty sector or an
  empty search text as a filter that is not provided.
\<close>

theorem list_pagination_contract:
  "(GetPositionsSchema gp \<longrightarrow>
      (\<exists>r. position_list gp s = (Inr r, s) \<and>
        pagination_contract (withDefault 50 (gp_limit gp)) (withDefault 0 (gp_offset gp))
          (length (filter (position_matches gp) (positions s))) r))
 \<and> (GetTransactionsSchema gt \<longrightarrow>
      (\<exists>r. transaction_list gt s = (Inr r, s) \<and>
        pagination_contract (withDefault 50 (gt_limit gt)) (withDefault 0 (gt_offset gt))
          (length (filter (transaction_matches s gt) (transactions s))) r))
 \<and> (ListUsersSchema li \<longrightarrow>
      (\<exists>r. user_list li s = (Inr r, s) \<and>
        pagination_contract (withDefault 50 (li_limit li)) (withDefault 0 (li_offset li))
          (length (users s)) r)
    \<and> (\<exists>res r. rest_user_list li s = (res, s) \<and> res_data res = Some r \<and>
        pagination_contract (number_or 50 (li_limit li)) (number_or 0 (li_offset li))
          (length (users s)) r))
 \<and> (ListStocksSchema ls \<longrightarrow>
      (\<exists>r. stock_list contains ls s = (Inr r, s) \<and>
        pagination_contract (withDefault 50 (ls_limit ls)) (withDefault 0 (ls_offset ls))
          (length (filter (stock_matches contains (without_blanks ls)) (stocks s))) r))
 \<and> (ListWatchlistSchema lw \<longrightarrow>
      (\<exists>r. watchlist_list lw s = (Inr r, s) \<and>
        pagination_contract (withDefault 50 (lw_limit lw)) (withDefault 0 (lw_offset lw))
          (length (filter (\<lambda>w. wl_userId w = lw_userId lw) (watchlist s))) r))"
proof (intro conjI impI)
  assume v: "GetPositionsSchema gp"
  then have "0 < withDefault 50 (gp_limit gp)"
    by (auto simp add: GetPositionsSchema_def intro: limit_pos)
  then show "\<exists>r. position_list gp s = (Inr r, s) \<and>
        pagination_contract (withDefault 50 (gp_limit gp)) (withDefault 0 (gp_offset gp))
          (length (filter (position_matches gp) (positions s))) r"
    using v
    by (simp add: position_list_def procedure_ok position_list_handler_def Let_def
        pagination_contract_def count_where_def length_page position_where_matches)
next
  assume v: "GetTransactionsSchema gt"
  then have "0 < withDefault 50 (gt_limit gt)"
    by (auto simp add: GetTransactionsSchema_def intro: limit_pos)
  then show "\<exists>r. transaction_list gt s = (Inr r, s) \<and>
        pagination_contract (withDefault 50 (gt_limit gt)) (withDefault 0 (gt_offset gt))
          (length (filter (transaction_matches s gt) (transactions s))) r"
    using v
    by (simp add: transaction_list_def procedure_ok transaction_list_handler_def Let_def
        pagination_contract_def count_where_def length_page transaction_where_matches)
next
  assume v: "ListUsersSchema li"
  then have "0 < withDefault 50 (li_limit li)"
    by (auto simp add: ListUsersSchema_def intro: limit_pos)
  then show "\<exists>r. user_list li s = (Inr r, s) \<and>
        pagination_contract (withDefault 50 (li_limit li)) (withDefault 0 (li_offset li))
          (length (users s)) r"
    using v
    by (simp add: user_list_def procedure_ok user_list_handler_def Let_def
        pagination_contract_def length_page)
next
  assume v: "ListUsersSchema li"
  then have "0 < number_or 50 (li_limit li)"
    by (auto simp add: ListUsersSchema_def intro: limit_pos_rest)
  then show "\<exists>res r. rest_user_list li s = (res, s) \<and> res_data res = Some r \<and>
        pagination_contract (number_or 50 (li_limit li)) (number_or 0 (li_offset li))
          (length (users s)) r"
    using v
    by (simp add: rest_user_list_def ListUsersSchema_def Let_def
        pagination_contract_def length_page)
next
  assume v: "ListStocksSchema ls"
  then have "0 < withDefault 50 (ls_limit ls)"
    by (auto simp add: ListStocksSchema_def intro: limit_pos)
  then show "\<exists>r. stock_list contains ls s = (Inr r, s) \<and>
        pagination_contract (withDefault 50 (ls_limit ls)) (withDefault 0 (ls_offset ls))
          (length (filter (stock_matches contains (without_blanks ls)) (stocks s))) r"
    using v
    by (simp add: stock_list_def procedure_ok stock_list_handler_def Let_def
        pagination_contract_def count_where_def length_page stock_where_matches)
next
  assume v: "ListWatchlistSchema lw"
  then have "0 < withDefault 50 (lw_limit lw)"
    by (auto simp add: ListWatchlistSchema_def intro: limit_pos)
  then show "\<exists>r. watchlist_list lw s = (Inr r, s) \<and>
        pagination_contract (withDefault 50 (lw_limit lw)) (withDefault 0 (lw_offset lw))
          (length (filter (\<lambda>w. wl_userId w = lw_userId lw) (watchlist s))) r"
    using v
    by (simp add: watchlist_list_def procedure_ok watchlist_list_handler_def Let_def
        pagination_contract_def count_where_def length_page)
qed

text \<open>One page of each list of the example database.\<close>

theorem list_pagination_contract_witness:
  "GetPositionsSchema example_page \<and> GetTransactionsSchema example_tx_query
   \<and> ListUsersSchema example_user_page \<and> ListStocksSchema blank_sector_query
   \<and> ListWatchlistSchema example_watch_page
   \<and> (\<exists>r. position_list example_page example_store = (Inr r, example_store)
         \<and> total r = 2 \<and> length (items r) \<le> 1 \<and> hasMore r)
   \<and> (\<exists>r. transaction_list example_tx_query example_store = (Inr r, example_store)
         \<and> total r = 1 \<and> length (items r) \<le> 50 \<and> \<not> hasMore r)
   \<and> (\<exists>r. user_list example_user_page example_store = (Inr r, example_store)
         \<and> total r = 2 \<and> length (items r) \<le> 1 \<and> hasMore r)
   \<and> (\<exists>res r. rest_user_list example_user_page example_store = (res, example_store)
         \<and> res_data res = Some r \<and> total r = 2 \<and> length (items r) \<le> 1 \<and> hasMore r)
   \<and> (\<exists>r. stock_list contains_insensitive blank_sector_query example_store = (Inr r, example_store)
         \<and> total r = 2 \<and> length (items r) \<le> 50 \<and> \<not> hasMore r)
   \<and> (\<exists>r. watchlist_list example_watch_page example_store = (Inr r, example_store)
         \<and> total r = 3 \<and> length (items r) \<le> 2 \<and> \<not> hasMore r)"
proof -
  have gp: "GetPositionsSchema example_page"
    by (simp add: GetPositionsSchema_def example_page_def example_ids opt_def limit_ok_def offset_ok_def)
  have gt: "GetTransactionsSchema example_tx_query"
    by (simp add: GetTransactionsSchema_def example_tx_query_def example_ids opt_def limit_ok_def
        offset_ok_def)
  have li: "ListUsersSchema example_user_page"
    by (simp add: ListUsersSchema_def example_user_page_def opt_def limit_ok_def offset_ok_def)
  have ls: "ListStocksSchema blank_sector_query"
    by (simp add: ListStocksSchema_def blank_sector_query_def opt_def limit_ok_def offset_ok_def)
  have lw: "ListWatchlistSchema example_watch_page"
    by (simp add: ListWatchlistSchema_def example_watch_page_def example_ids opt_def limit_ok_def
        offset_ok_def)
  note contract = list_pagination_contract[of example_page example_store example_tx_query
      example_user_page blank_sector_query contains_insensitive example_watch_page]
  have n_positions: "length (filter (position_matches example_page) (positions example_store)) = 2"
    by (simp add: position_matches_def example_page_def example_store_def example_position_def
        idle_position_def)
  have n_transactions:
    "length (filter (transaction_matches example_store example_tx_query) (transactions example_store)) = 1"
    by (simp add: transaction_matches_def owner_is_def findUnique_def example_tx_query_def
        example_store_def example_position_def idle_position_def example_buy_def)
  have n_users: "length (users example_store) = 2"
    by (simp add: example_store_def)
  have n_stocks: "length (filter (stock_matches contains_insensitive (without_blanks blank_sector_query))
      (stocks example_store)) = 2"
    by (simp add: stock_matches_def without_blanks_def nonempty_def blank_sector_query_def
        example_store_def)
  have n_watch: "length (filter (\<lambda>w. wl_userId w = lw_userId example_watch_page) (watchlist example_store)) = 3"
    by (simp add: example_watch_page_def example_store_def)
  from contract gp n_positions
  have p: "\<exists>r. position_list example_page example_store = (Inr r, example_store)
         \<and> total r = 2 \<and> length (items r) \<le> 1 \<and> hasMore r"
    by (auto simp: pagination_contract_def example_page_def withDefault_def)
  from contract gt n_transactions
  have t: "\<exists>r. transaction_list example_tx_query example_store = (Inr r, example_store)
         \<and> total r = 1 \<and> length (items r) \<le> 50 \<and> \<not> hasMore r"
    by (auto simp: pagination_contract_def example_tx_query_def withDefault_def)
  from contract li n_users
  have u: "\<exists>r. user_list example_user_page example_store = (Inr r, example_store)
         \<and> total r = 2 \<and> length (items r) \<le> 1 \<and> hasMore r"
    by (auto simp: pagination_contract_def example_user_page_def withDefault_def)
  from contract li n_users
  have ru: "\<exists>res r. rest_user_list example_user_page example_store = (res, example_store)
         \<and> res_data res = Some r \<and> total r = 2 \<and> length (items r) \<le> 1 \<and> hasMore r"
    by (auto simp: pagination_contract_def example_user_page_def number_or_def)
  from contract ls n_stocks
  have k: "\<exists>r. stock_list contains_insensitive blank_sector_query example_store = (Inr r, example_store)
         \<and> total r = 2 \<and> length (items r) \<le> 50 \<and> \<not> hasMore r"
    by (auto simp: pagination_contract_def blank_sector_query_def withDefault_def)
  from contract lw n_watch
  have w: "\<exists>r. watchlist_list example_watch_page example_store = (Inr r, example_store)
         \<and> total r = 3 \<and> length (items r) \<le> 2 \<and> \<not> hasMore r"
    by (auto simp: pagination_contract_def example_watch_page_def withDefault_def)
  show ?thesis by (intro conjI gp gt li ls lw p t u ru k w)
qed

text \<open>
  The total of the list of stocks does not count the rows that match an empty sector:
  for the input \<open>sector = ''''\<close> the condition is dropped, and the total is the number
  of all stocks, while no stock has an empty sector.
\<close>

theorem stock_total_ignores_blank_sector:
  "ListStocksSchema blank_sector_query
   \<and> stock_list contains_insensitive blank_sector_query example_store =
       (Inr \<lparr>items = stocks example_store, total = 2, hasMore = False\<rparr>, example_store)
   \<and> length (filter (stock_matches contains_insensitive blank_sector_query) (stocks example_store)) = 0
   \<and> \<not> pagination_contract 50 0
        (length (filter (stock_matches contains_insensitive blank_sector_query) (stocks example_store)))
        \<lparr>items = stocks example_store, total = 2, hasMore = False\<rparr>"
  by (simp add: stock_list_def procedure_def ListStocksSchema_def blank_sector_query_def
      opt_def limit_ok_def offset_ok_def stock_list_handler_def Let_def withDefault_def page_def
      stock_where_def when_present_def when_string_def count_where_def stock_matches_def
      pagination_contract_def example_store_def)

subsection \<open>Price alerts\<close>

lemma set_desc: "set (desc key rows) = set rows"
  by (simp add: desc_def)

lemma desc_head_greatest:
  assumes "desc key rows = r # rest"
  shows "r \<in> set rows \<and> (\<forall>x \<in> set rows. key x \<le> key r)"
proof -
  have "sorted (map (\<lambda>r. - key r) (desc key rows))"
    unfolding desc_def by (rule sorted_sort_key)
  with assms have le: "\<forall>x \<in> set rest. key x \<le> key r" by simp
  have "set rows = insert r (set rest)"
    using set_desc[of key rows] assms by simp
  with le show ?thesis by simp
qed

lemma desc_Nil: "desc key rows = [] \<longleftrightarrow> rows = []"
  using set_desc[of key rows] by (cases rows; cases "desc key rows") auto


lemma findFirst_desc_None:
  "findFirst_desc key P rows = None \<longleftrightarrow> \<not> (\<exists>x \<in> set rows. P x)"
proof (cases "desc key (filter P rows)")
  case Nil
  then have "filter P rows = []" by (simp add: desc_Nil)
  with Nil show ?thesis by (simp add: findFirst_desc_def filter_empty_conv)
next
  case (Cons r rest)
  then have "filter P rows \<noteq> []" using desc_Nil[of key "filter P rows"] by simp
  with Cons show ?thesis by (simp add: findFirst_desc_def filter_empty_conv)
qed

lemma findFirst_desc_Some:
  assumes "findFirst_desc key P rows = Some r"
  shows "r \<in> set rows \<and> P r \<and> (\<forall>x \<in> set rows. P x \<longrightarrow> key x \<le> key r)"
proof -
  from assms obtain rest where "desc key (filter P rows) = r # rest"
    by (simp add: findFirst_desc_def split: list.splits)
  from desc_head_greatest[OF this] show ?thesis by simp
qed

lemma latest_is_most_recent:
  "findFirst_desc ph_date (\<lambda>h. ph_stockId h = k) (priceHistory s) = Some l \<Longrightarrow> most_recent s k l"
  by (drule findFirst_desc_Some) (simp add: most_recent_def)


lemma most_recent_unique:
  assumes "distinct (map (\<lambda>h. (ph_stockId h, ph_date h)) (priceHistory s))"
    and "most_recent s k h" and "most_recent s k h'"
  shows "h = h'"
proof -
  from assms(2,3) have mem: "h \<in> set (priceHistory s)" "h' \<in> set (priceHistory s)"
    and k: "ph_stockId h = ph_stockId h'"
    and "ph_date h \<le> ph_date h'" "ph_date h' \<le> ph_date h"
    by (simp_all add: most_recent_def)
  then have same_key: "(ph_stockId h, ph_date h) = (ph_stockId h', ph_date h')" by simp
  from assms(1) have inj: "inj_on (\<lambda>h. (ph_stockId h, ph_date h)) (set (priceHistory s))"
    by (simp add: distinct_map)
  from inj_onD[OF inj same_key mem] show ?thesis .
qed


lemma al_triggered_annotate:
  "al_triggered (annotate s w) \<longleftrightarrow>
     (\<exists>l target. findFirst_desc ph_date (\<lambda>h. ph_stockId h = wl_stockId w) (priceHistory s) = Some l \<and>
        wl_targetPrice w = Some target \<and> js_ge (ph_close l) target)"
  by (simp add: annotate_def Let_def split: option.split)

lemma annotate_triggered:
  assumes "distinct (map (\<lambda>h. (ph_stockId h, ph_date h)) (priceHistory s))"
  shows "al_triggered (annotate s w) \<longleftrightarrow>
     (\<exists>h target. wl_targetPrice w = Some target \<and> most_recent s (wl_stockId w) h \<and>
                 js_ge (ph_close h) target)"
proof (cases "findFirst_desc ph_date (\<lambda>h. ph_stockId h = wl_stockId w) (priceHistory s)")
  case None
  then have "\<And>h. \<not> most_recent s (wl_stockId w) h"
    by (simp add: findFirst_desc_None most_recent_def)
  with None show ?thesis by (simp add: al_triggered_annotate)
next
  case (Some l)
  then have l: "most_recent s (wl_stockId w) l" by (rule latest_is_most_recent)
  have only: "\<And>h. most_recent s (wl_stockId w) h \<Longrightarrow> h = l"
    by (rule most_recent_unique[OF assms _ l])
  show ?thesis
  proof
    assume "al_triggered (annotate s w)"
    with Some obtain target where "wl_targetPrice w = Some target" "js_ge (ph_close l) target"
      by (auto simp: al_triggered_annotate)
    with l show "\<exists>h target. wl_targetPrice w = Some target \<and> most_recent s (wl_stockId w) h \<and>
                 js_ge (ph_close h) target" by blast
  next
    assume "\<exists>h target. wl_targetPrice w = Some target \<and> most_recent s (wl_stockId w) h \<and>
                 js_ge (ph_close h) target"
    then obtain h target where t: "wl_targetPrice w = Some target"
      and h: "most_recent s (wl_stockId w) h" and ge: "js_ge (ph_close h) target" by blast
    from only[OF h] ge have "js_ge (ph_close l) target" by simp
    with Some t show "al_triggered (annotate s w)" by (simp add: al_triggered_annotate)
  qed
qed

lemma al_item_annotate: "al_item (annotate s w) = w"
  by (simp add: annotate_def Let_def)

lemma map_al_item_annotate: "map al_item (map (annotate s) ws) = ws"
  by (induction ws) (simp_all add: al_item_annotate)

text \<open>
  C7. \<open>getPriceAlerts\<close> annotates exactly the watchlist rows of the user that have a
  target price; a row is flagged as triggered if and only if the most recent price of
  its stock has a close that is at least the target price; the triggered alerts are
  the annotated rows that are flagged, so a row without a target price is never among
  them. Price rows are unique for a stock and a date.
\<close>

theorem price_alert_triggered_iff_latest_close_reaches_target:
  assumes "cuid userId"
    and "distinct (map (\<lambda>h. (ph_stockId h, ph_date h)) (priceHistory s))"
  shows "\<exists>r. getPriceAlerts userId s = (Inr r, s)
      \<and> set (map al_item (watchlistWithAlerts r)) =
          {w \<in> set (watchlist s). wl_userId w = userId \<and> wl_targetPrice w \<noteq> None}
      \<and> length (watchlistWithAlerts r) =
          length (filter (\<lambda>w. wl_userId w = userId \<and> wl_targetPrice w \<noteq> None) (watchlist s))
      \<and> (\<forall>a \<in> set (watchlistWithAlerts r).
            al_triggered a \<longleftrightarrow>
              (\<exists>h target. wl_targetPrice (al_item a) = Some target \<and>
                  most_recent s (wl_stockId (al_item a)) h \<and> js_ge (ph_close h) target))
      \<and> triggeredAlerts r = filter al_triggered (watchlistWithAlerts r)
      \<and> (\<forall>a \<in> set (triggeredAlerts r). wl_targetPrice (al_item a) \<noteq> None)"
proof -
  define ws where "ws = desc wl_createdAt
     (filter (\<lambda>w. wl_userId w = userId \<and> wl_targetPrice w \<noteq> None) (watchlist s))"
  define r where "r = \<lparr> watchlistWithAlerts = map (annotate s) ws,
             triggeredAlerts = filter al_triggered (map (annotate s) ws) \<rparr>"
  have with_alerts: "watchlistWithAlerts r = map (annotate s) ws"
    and triggered: "triggeredAlerts r = filter al_triggered (map (annotate s) ws)"
    by (simp_all add: r_def)
  have ws_set: "set ws = {w \<in> set (watchlist s). wl_userId w = userId \<and> wl_targetPrice w \<noteq> None}"
    by (simp add: ws_def set_desc)
  have run: "getPriceAlerts userId s = (Inr r, s)"
    using assms(1)
    by (simp add: getPriceAlerts_def procedure_ok getPriceAlerts_handler_def Let_def r_def ws_def)
  have items: "set (map al_item (watchlistWithAlerts r)) =
          {w \<in> set (watchlist s). wl_userId w = userId \<and> wl_targetPrice w \<noteq> None}"
    by (simp only: with_alerts map_al_item_annotate ws_set)
  have len: "length (watchlistWithAlerts r) =
          length (filter (\<lambda>w. wl_userId w = userId \<and> wl_targetPrice w \<noteq> None) (watchlist s))"
    by (simp add: with_alerts ws_def desc_def)
  have trig: "\<forall>a \<in> set (watchlistWithAlerts r).
            al_triggered a \<longleftrightarrow>
              (\<exists>h target. wl_targetPrice (al_item a) = Some target \<and>
                  most_recent s (wl_stockId (al_item a)) h \<and> js_ge (ph_close h) target)"
  proof
    fix a assume "a \<in> set (watchlistWithAlerts r)"
    then obtain w where a: "a = annotate s w" by (auto simp: with_alerts)
    show "al_triggered a \<longleftrightarrow>
              (\<exists>h target. wl_targetPrice (al_item a) = Some target \<and>
                  most_recent s (wl_stockId (al_item a)) h \<and> js_ge (ph_close h) target)"
      unfolding a al_item_annotate by (rule annotate_triggered[OF assms(2)])
  qed
  have sub: "triggeredAlerts r = filter al_triggered (watchlistWithAlerts r)"
    by (simp only: with_alerts triggered)
  have nonnull: "\<forall>a \<in> set (triggeredAlerts r). wl_targetPrice (al_item a) \<noteq> None"
  proof
    fix a assume "a \<in> set (triggeredAlerts r)"
    then obtain w where a: "a = annotate s w" and w: "w \<in> set ws"
      by (auto simp: triggered)
    from w show "wl_targetPrice (al_item a) \<noteq> None"
      unfolding a al_item_annotate ws_set by simp
  qed
  from run items len trig sub nonnull show ?thesis by blast
qed

text \<open>The alerts of the first user: one is triggered, one is not, one row has no target.\<close>

theorem price_alert_triggered_iff_latest_close_reaches_target_witness:
  "cuid ''cuser00001''
   \<and> distinct (map (\<lambda>h. (ph_stockId h, ph_date h)) (priceHistory example_store))
   \<and> (\<exists>r. getPriceAlerts ''cuser00001'' example_store = (Inr r, example_store)
       \<and> length (watchlistWithAlerts r) = 2
       \<and> map (\<lambda>a. (wl_id (al_item a), al_currentPrice a, al_triggered a)) (watchlistWithAlerts r) =
           [(''cwatch0001'', Some (Num 125), True), (''cwatch0002'', Some (Num 50), False)]
       \<and> map (\<lambda>a. wl_id (al_item a)) (triggeredAlerts r) = [''cwatch0001'']
       \<and> (\<forall>a \<in> set (triggeredAlerts r). wl_targetPrice (al_item a) \<noteq> None))"
proof -
  have unique_dates: "distinct (map (\<lambda>h. (ph_stockId h, ph_date h)) (priceHistory example_store))"
    by (simp add: example_store_def)
  have n: "length (filter (\<lambda>w. wl_userId w = ''cuser00001'' \<and> wl_targetPrice w \<noteq> None)
      (watchlist example_store)) = 2"
    by (simp add: example_store_def)
  from price_alert_triggered_iff_latest_close_reaches_target[OF example_ids(1) unique_dates]
  obtain r where run: "getPriceAlerts ''cuser00001'' example_store = (Inr r, example_store)"
    and len: "length (watchlistWithAlerts r) =
          length (filter (\<lambda>w. wl_userId w = ''cuser00001'' \<and> wl_targetPrice w \<noteq> None)
            (watchlist example_store))"
    and sub: "triggeredAlerts r = filter al_triggered (watchlistWithAlerts r)"
    and nonnull: "\<forall>a \<in> set (triggeredAlerts r). wl_targetPrice (al_item a) \<noteq> None"
    by blast
  have eval: "map (\<lambda>a. (wl_id (al_item a), al_currentPrice a, al_triggered a))
      (watchlistWithAlerts r) =
        [(''cwatch0001'', Some (Num 125), True), (''cwatch0002'', Some (Num 50), False)]"
    using run
    by (auto simp add: getPriceAlerts_def procedure_def example_ids getPriceAlerts_handler_def Let_def
        desc_def annotate_def findFirst_desc_def findUnique_def example_store_def)
  then obtain a b where ab: "watchlistWithAlerts r = [a, b]"
    and a: "wl_id (al_item a) = ''cwatch0001''" "al_triggered a"
    and b: "\<not> al_triggered b"
    by (auto simp add: map_eq_Cons_conv)
  have trig: "map (\<lambda>a. wl_id (al_item a)) (triggeredAlerts r) = [''cwatch0001'']"
    unfolding sub ab using a b by simp
  from len n have len2: "length (watchlistWithAlerts r) = 2" by simp
  show ?thesis
    by (intro conjI example_ids(1) unique_dates exI[of _ r] run len2 eval trig nonnull)
qed

subsection \<open>Portfolio summary\<close>

text \<open>
  C10. For a user with no closed position, the summary of the portfolio has an average
  return of exactly zero, a total realized profit of zero and no closed position, in
  the procedure \<open>getPortfolioSummary\<close> and in the REST handler alike: the division by
  the number of closed positions is not evaluated.
\<close>

theorem empty_closed_portfolio_has_zero_average:
  assumes "cuid userId"
    and "filter (\<lambda>p. pos_userId p = userId \<and> pos_status p = CLOSED) (positions s) = []"
  shows "(\<exists>r. getPortfolioSummary userId s = (Inr r, s)
            \<and> avgReturn r = Num 0 \<and> totalRealizedPnL r = Num 0 \<and> totalClosedPositions r = 0)
       \<and> (\<exists>r res. rest_user_portfolio userId s = (res, s)
            \<and> res_status res = 200 \<and> res_data res = Some r
            \<and> avgReturn r = Num 0 \<and> totalRealizedPnL r = Num 0 \<and> totalClosedPositions r = 0)"
  using assms
  by (simp add: getPortfolioSummary_def procedure_ok rest_user_portfolio_def validateCuid_def
      portfolio_summary_def Let_def reduce_sum_def)

text \<open>The first user of the example database has only open positions.\<close>

theorem empty_closed_portfolio_has_zero_average_witness:
  "cuid ''cuser00001''
   \<and> filter (\<lambda>p. pos_userId p = ''cuser00001'' \<and> pos_status p = CLOSED) (positions example_store) = []
   \<and> (\<exists>r. getPortfolioSummary ''cuser00001'' example_store = (Inr r, example_store)
         \<and> avgReturn r = Num 0 \<and> totalRealizedPnL r = Num 0 \<and> totalClosedPositions r = 0)
   \<and> (\<exists>r res. rest_user_portfolio ''cuser00001'' example_store = (res, example_store)
         \<and> res_status res = 200 \<and> res_data res = Some r
         \<and> avgReturn r = Num 0 \<and> totalRealizedPnL r = Num 0 \<and> totalClosedPositions r = 0)"
proof -
  have none_closed:
    "filter (\<lambda>p. pos_userId p = ''cuser00001'' \<and> pos_status p = CLOSED) (positions example_store) = []"
    by (simp add: example_store_def example_position_def idle_position_def)
  note summary = empty_closed_portfolio_has_zero_average[OF example_ids(1) none_closed]
  show ?thesis
    by (intro conjI example_ids(1) none_closed summary[THEN conjunct1] summary[THEN conjunct2])
qed

text \<open>Without the guard the average over no position would be \<^verbatim>\<open>NaN\<close>.\<close>

lemma unguarded_average_is_NaN: "js_div (reduce_sum f []) (Num (of_nat (length []))) = NaN"
  by (simp add: reduce_sum_def signed_infinity_def)

subsection \<open>The life of a position\<close>

lemma status_of_row_status: "status_of i s = row_status i (positions s)"
  by (simp add: status_of_def row_status_def)

lemma row_status_None: "row_status i rows = None \<longleftrightarrow> i \<notin> set (map pos_id rows)"
  by (induction rows) (auto simp: row_status_def findUnique_def)

lemma row_status_append:
  "row_status i (rows @ [p]) =
     (case row_status i rows of
        Some x \<Rightarrow> Some x
      | None \<Rightarrow> if pos_id p = i then Some (pos_status p) else None)"
  by (induction rows) (auto simp: row_status_def findUnique_def)

lemma row_status_update_other:
  "(\<And>q. pos_id (f q) = pos_id q) \<Longrightarrow> j \<noteq> i \<Longrightarrow>
   row_status i (update_row (\<lambda>q. pos_id q = j) f rows) = row_status i rows"
  by (induction rows) (auto simp: row_status_def findUnique_def)

lemma row_status_update_same:
  "(\<And>q. pos_id (f q) = pos_id q \<and> pos_status (f q) = pos_status q) \<Longrightarrow>
   row_status i (update_row P f rows) = row_status i rows"
  by (induction rows) (auto simp: row_status_def findUnique_def)

lemma ids_update_row:
  "(\<And>q. pos_id (f q) = pos_id q) \<Longrightarrow> map pos_id (update_row P f rows) = map pos_id rows"
  by (induction rows) auto

lemma row_status_delete_other:
  "j \<noteq> i \<Longrightarrow> row_status i (delete_row (\<lambda>q. pos_id q = j) rows) = row_status i rows"
  by (induction rows) (auto simp: row_status_def findUnique_def)

lemma row_status_delete_same:
  "distinct (map pos_id rows) \<Longrightarrow> row_status i (delete_row (\<lambda>q. pos_id q = i) rows) = None"
proof (induction rows)
  case Nil
  then show ?case by (simp add: row_status_def findUnique_def)
next
  case (Cons x xs)
  show ?case
  proof (cases "pos_id x = i")
    case True
    with Cons.prems have "i \<notin> set (map pos_id xs)" by simp
    with True show ?thesis by (simp add: row_status_None)
  next
    case False
    with Cons show ?thesis by (simp add: row_status_def findUnique_def)
  qed
qed

lemma set_delete_row: "set (delete_row P rows) \<subseteq> set rows"
  by (induction rows) auto

lemma distinct_ids_delete_row:
  "distinct (map pos_id rows) \<Longrightarrow> distinct (map pos_id (delete_row P rows))"
proof (induction rows)
  case Nil
  then show ?case by simp
next
  case (Cons x xs)
  have "pos_id ` set (delete_row P xs) \<subseteq> pos_id ` set xs"
    using set_delete_row[of P xs] by blast
  with Cons show ?case by auto
qed


subsection \<open>what each operation does to the table of positions\<close>

lemma positions_transaction_create_row:
  "positions (snd (transaction_create_row t s)) = positions s"
  by (simp add: transaction_create_row_def)

lemma create_positions:
  "positions (snd (position_create n t inp s)) = positions s \<or>
   (\<exists>p. pos_id p = n \<and> pos_status p = OPEN \<and>
        positions (snd (position_create n t inp s)) = positions s @ [p])"
proof (cases "CreatePositionSchema inp \<and> findUnique (\<lambda>q. pos_id q = n) (positions s) = None \<and>
    findUnique (\<lambda>u. usr_id u = cp_userId inp) (users s) \<noteq> None \<and>
    findUnique (\<lambda>k. stk_id k = cp_stockId inp) (stocks s) \<noteq> None")
  case False
  then have "snd (position_create n t inp s) = s"
    by (auto simp: position_create_def procedure_def position_create_handler_def Let_def
        position_create_row_def new_position_def)
  then show ?thesis by simp
next
  case True
  let ?tbv = "js_mul (Num (of_int (cp_quantity inp))) (cp_entryPrice inp)"
  let ?p = "new_position n inp ?tbv (js_add ?tbv (withDefault (Num 0) (cp_buyFees inp)))"
  let ?t = "new_transaction t n BUY (cp_openDate inp) (cp_quantity inp) (cp_entryPrice inp) ?tbv
      (withDefault (Num 0) (cp_buyFees inp))"
  have p: "pos_id ?p = n" "pos_status ?p = OPEN" by (simp_all add: new_position_def)
  have refs: "pos_userId ?p = cp_userId inp" "pos_stockId ?p = cp_stockId inp"
    by (simp_all add: new_position_def)
  have row: "position_create_row ?p s = (Inr ?p, s\<lparr>positions := positions s @ [?p]\<rparr>)"
    using True by (simp add: position_create_row_def p refs)
  have "snd (position_create n t inp s) =
      snd (transaction_create_row ?t (s\<lparr>positions := positions s @ [?p]\<rparr>))"
    using True
    by (simp add: position_create_def procedure_def position_create_handler_def Let_def row p
        split: prod.splits sum.splits)
  then have app: "positions (snd (position_create n t inp s)) = positions s @ [?p]"
    by (simp add: positions_transaction_create_row)
  show ?thesis
    by (rule disjI2, rule exI[of _ ?p]) (intro conjI p app)
qed

lemma close_positions:
  "positions (snd (position_close t inp s)) = positions s \<or>
   (\<exists>p f. findUnique (\<lambda>q. pos_id q = cl_positionId inp) (positions s) = Some p \<and>
          pos_status p = OPEN \<and> (\<forall>q. pos_id (f q) = pos_id q) \<and>
          positions (snd (position_close t inp s)) =
            update_row (\<lambda>q. pos_id q = cl_positionId inp) f (positions s))"
proof (cases "ClosePositionSchema inp")
  case False
  then show ?thesis by (simp add: position_close_def procedure_def)
next
  case valid: True
  show ?thesis
  proof (cases "findUnique (\<lambda>q. pos_id q = cl_positionId inp) (positions s)")
    case None
    with valid show ?thesis
      by (simp add: position_close_def procedure_def position_close_handler_def Let_def)
  next
    case (Some p)
    show ?thesis
    proof (cases "pos_status p = OPEN")
      case False
      with valid Some show ?thesis
        by (simp add: position_close_def procedure_def position_close_handler_def Let_def)
    next
      case True
      let ?sf = "withDefault (Num 0) (cl_sellFees inp)"
      let ?tsv = "js_mul (Num (of_int (pos_quantity p))) (cl_exitPrice inp)"
      let ?pnl = "js_sub (js_sub (js_sub ?tsv (pos_totalBuyValue p)) (pos_buyFees p)) ?sf"
      let ?f = "\<lambda>q. q\<lparr> pos_status := CLOSED,
                  pos_closeDate := Some (cl_closeDate inp),
                  pos_exitPrice := Some (cl_exitPrice inp),
                  pos_totalSellValue := Some ?tsv,
                  pos_sellFees := Some ?sf,
                  pos_realizedPnL := Some ?pnl,
                  pos_returnPercentage := Some (js_mul (js_div ?pnl (pos_capitalAllocated p)) (Num 100)),
                  pos_tradeGrade := merge (cl_tradeGrade inp) (pos_tradeGrade q),
                  pos_lessonsLearned := merge (cl_lessonsLearned inp) (pos_lessonsLearned q) \<rparr>"
      have upd: "positions (snd (position_close t inp s)) =
              update_row (\<lambda>q. pos_id q = cl_positionId inp) ?f (positions s)"
        using valid Some True
        by (simp add: position_close_def procedure_def position_close_handler_def Let_def
            position_update_row_def transaction_create_row_def)
      have ids: "\<forall>q. pos_id (?f q) = pos_id q" by simp
      show ?thesis
        by (rule disjI2, rule exI[of _ p], rule exI[of _ ?f]) (intro conjI Some True ids upd)
    qed
  qed
qed

lemma update_positions:
  "\<exists>f. (\<forall>q. pos_id (f q) = pos_id q \<and> pos_status (f q) = pos_status q) \<and>
       (positions (snd (position_update inp s)) = positions s \<or>
        positions (snd (position_update inp s)) =
          update_row (\<lambda>q. pos_id q = up_id inp) f (positions s))"
proof -
  let ?f = "\<lambda>p. p\<lparr> pos_stopLossPrice := merge (up_stopLossPrice inp) (pos_stopLossPrice p),
               pos_takeProfitPrice := merge (up_takeProfitPrice inp) (pos_takeProfitPrice p),
               pos_strategy := merge (up_strategy inp) (pos_strategy p),
               pos_setupType := merge (up_setupType inp) (pos_setupType p),
               pos_timeframe := merge (up_timeframe inp) (pos_timeframe p),
               pos_tags := withDefault (pos_tags p) (up_tags inp),
               pos_notes := merge (up_notes inp) (pos_notes p) \<rparr>"
  have upd: "positions (snd (position_update inp s)) = positions s \<or>
        positions (snd (position_update inp s)) =
          update_row (\<lambda>q. pos_id q = up_id inp) ?f (positions s)"
    by (simp add: position_update_def procedure_def position_update_handler_def
        position_update_row_def split: option.split)
  have same: "\<forall>q. pos_id (?f q) = pos_id q \<and> pos_status (?f q) = pos_status q" by simp
  show ?thesis
    by (rule exI[of _ ?f]) (intro conjI same upd)
qed

lemma delete_positions:
  "positions (snd (position_delete j s)) = positions s \<or>
   positions (snd (position_delete j s)) = delete_row (\<lambda>q. pos_id q = j) (positions s)"
  by (simp add: position_delete_def procedure_def position_delete_handler_def Let_def)


subsection \<open>one step\<close>

lemma step_closed:
  assumes d: "distinct (map pos_id (positions s))" and c: "status_of i s = Some CLOSED"
  shows "status_of i (step x s) = Some CLOSED \<or> status_of i (step x s) = None"
proof (cases x)
  case (Create n t inp)
  from c have rs: "row_status i (positions s) = Some CLOSED"
    by (simp add: status_of_row_status)
  from create_positions[of n t inp s] have "status_of i (step x s) = Some CLOSED"
  proof
    assume "positions (snd (position_create n t inp s)) = positions s"
    with rs show ?thesis by (simp add: Create status_of_row_status)
  next
    assume "\<exists>p. pos_id p = n \<and> pos_status p = OPEN \<and>
        positions (snd (position_create n t inp s)) = positions s @ [p]"
    then obtain p where "positions (snd (position_create n t inp s)) = positions s @ [p]"
      by blast
    with rs show ?thesis by (simp add: Create status_of_row_status row_status_append)
  qed
  then show ?thesis by simp
next
  case (Close t inp)
  from c have rs: "row_status i (positions s) = Some CLOSED"
    by (simp add: status_of_row_status)
  from close_positions[of t inp s] have "status_of i (step x s) = Some CLOSED"
  proof
    assume "positions (snd (position_close t inp s)) = positions s"
    with rs show ?thesis by (simp add: Close status_of_row_status)
  next
    assume "\<exists>p f. findUnique (\<lambda>q. pos_id q = cl_positionId inp) (positions s) = Some p \<and>
          pos_status p = OPEN \<and> (\<forall>q. pos_id (f q) = pos_id q) \<and>
          positions (snd (position_close t inp s)) =
            update_row (\<lambda>q. pos_id q = cl_positionId inp) f (positions s)"
    then obtain p f where p: "findUnique (\<lambda>q. pos_id q = cl_positionId inp) (positions s) = Some p"
      and op: "pos_status p = OPEN" and f: "\<And>q. pos_id (f q) = pos_id q"
      and upd: "positions (snd (position_close t inp s)) =
            update_row (\<lambda>q. pos_id q = cl_positionId inp) f (positions s)"
      by blast
    from p op have "row_status (cl_positionId inp) (positions s) = Some OPEN"
      by (simp add: row_status_def)
    with rs have "cl_positionId inp \<noteq> i" by (cases "cl_positionId inp = i") simp_all
    from row_status_update_other[of f, OF f this] rs upd show ?thesis
      by (simp add: Close status_of_row_status)
  qed
  then show ?thesis by simp
next
  case (Update inp)
  from c have rs: "row_status i (positions s) = Some CLOSED"
    by (simp add: status_of_row_status)
  from update_positions[of inp s] obtain f
    where f: "\<And>q. pos_id (f q) = pos_id q \<and> pos_status (f q) = pos_status q"
      and upd: "positions (snd (position_update inp s)) = positions s \<or>
        positions (snd (position_update inp s)) =
          update_row (\<lambda>q. pos_id q = up_id inp) f (positions s)"
    by blast
  from upd have "status_of i (step x s) = Some CLOSED"
  proof
    assume "positions (snd (position_update inp s)) = positions s"
    with rs show ?thesis by (simp add: Update status_of_row_status)
  next
    assume "positions (snd (position_update inp s)) =
          update_row (\<lambda>q. pos_id q = up_id inp) f (positions s)"
    with rs row_status_update_same[of f, OF f] show ?thesis
      by (simp add: Update status_of_row_status)
  qed
  then show ?thesis by simp
next
  case (Delete j)
  from c have rs: "row_status i (positions s) = Some CLOSED"
    by (simp add: status_of_row_status)
  from delete_positions[of j s] show ?thesis
  proof
    assume "positions (snd (position_delete j s)) = positions s"
    with rs show ?thesis by (simp add: Delete status_of_row_status)
  next
    assume del: "positions (snd (position_delete j s)) = delete_row (\<lambda>q. pos_id q = j) (positions s)"
    show ?thesis
    proof (cases "j = i")
      case True
      with del row_status_delete_same[OF d, of i] show ?thesis
        by (simp add: Delete status_of_row_status)
    next
      case False
      with del rs row_status_delete_other[of j i "positions s"] show ?thesis
        by (simp add: Delete status_of_row_status)
    qed
  qed
qed

lemma step_ids:
  "map pos_id (positions (step x s)) = map pos_id (positions s)
   \<or> (\<exists>n t inp. x = Create n t inp \<and>
          map pos_id (positions (step x s)) = map pos_id (positions s) @ [n])
   \<or> (\<exists>j. x = Delete j \<and>
          positions (step x s) = delete_row (\<lambda>q. pos_id q = j) (positions s))"
proof (cases x)
  case (Create n t inp)
  from create_positions[of n t inp s] show ?thesis
  proof
    assume "positions (snd (position_create n t inp s)) = positions s"
    then show ?thesis by (simp add: Create)
  next
    assume "\<exists>p. pos_id p = n \<and> pos_status p = OPEN \<and>
        positions (snd (position_create n t inp s)) = positions s @ [p]"
    then obtain p where "pos_id p = n"
      "positions (snd (position_create n t inp s)) = positions s @ [p]" by blast
    then show ?thesis by (simp add: Create)
  qed
next
  case (Close t inp)
  from close_positions[of t inp s] show ?thesis
  proof
    assume "positions (snd (position_close t inp s)) = positions s"
    then show ?thesis by (simp add: Close)
  next
    assume "\<exists>p f. findUnique (\<lambda>q. pos_id q = cl_positionId inp) (positions s) = Some p \<and>
          pos_status p = OPEN \<and> (\<forall>q. pos_id (f q) = pos_id q) \<and>
          positions (snd (position_close t inp s)) =
            update_row (\<lambda>q. pos_id q = cl_positionId inp) f (positions s)"
    then obtain f where f: "\<And>q. pos_id (f q) = pos_id q"
      and upd: "positions (snd (position_close t inp s)) =
            update_row (\<lambda>q. pos_id q = cl_positionId inp) f (positions s)"
      by blast
    from ids_update_row[of f, OF f] upd show ?thesis by (simp add: Close)
  qed
next
  case (Update inp)
  from update_positions[of inp s] obtain f
    where f: "\<And>q. pos_id (f q) = pos_id q"
      and upd: "positions (snd (position_update inp s)) = positions s \<or>
        positions (snd (position_update inp s)) =
          update_row (\<lambda>q. pos_id q = up_id inp) f (positions s)"
    by blast
  from upd show ?thesis
  proof
    assume "positions (snd (position_update inp s)) = positions s"
    then show ?thesis by (simp add: Update)
  next
    assume "positions (snd (position_update inp s)) =
          update_row (\<lambda>q. pos_id q = up_id inp) f (positions s)"
    with ids_update_row[of f, OF f] show ?thesis by (simp add: Update)
  qed
next
  case (Delete j)
  from delete_positions[of j s] show ?thesis
  proof
    assume "positions (snd (position_delete j s)) = positions s"
    then show ?thesis by (simp add: Delete)
  next
    assume "positions (snd (position_delete j s)) = delete_row (\<lambda>q. pos_id q = j) (positions s)"
    then show ?thesis by (simp add: Delete)
  qed
qed

lemma ids_delete_row_subset: "set (map pos_id (delete_row P rows)) \<subseteq> set (map pos_id rows)"
  using set_delete_row[of P rows] by (simp add: image_mono)

lemma step_absent:
  assumes a: "status_of i s = None" and n: "i \<notin> set (created_ids [x])"
  shows "status_of i (step x s) = None"
proof -
  from a have out: "i \<notin> set (map pos_id (positions s))"
    by (simp add: status_of_row_status row_status_None)
  have "i \<notin> set (map pos_id (positions (step x s)))"
    using step_ids[of x s]
  proof (elim disjE exE conjE)
    assume "map pos_id (positions (step x s)) = map pos_id (positions s)"
    with out show ?thesis by simp
  next
    fix m t inp
    assume x: "x = Create m t inp"
      and ids: "map pos_id (positions (step x s)) = map pos_id (positions s) @ [m]"
    from n x have "m \<noteq> i" by simp
    with out show ?thesis unfolding ids by simp
  next
    fix j
    assume "positions (step x s) = delete_row (\<lambda>q. pos_id q = j) (positions s)"
    with out ids_delete_row_subset[of "\<lambda>q. pos_id q = j" "positions s"]
    show ?thesis by auto
  qed
  then show ?thesis by (simp add: status_of_row_status row_status_None)
qed

lemma distinct_shrink:
  "distinct (ids @ c) \<Longrightarrow> distinct ids' \<Longrightarrow> set ids' \<subseteq> set ids \<Longrightarrow> distinct (ids' @ c)"
  by (simp add: disjoint_iff subset_iff)

lemma step_distinct:
  assumes "distinct (map pos_id (positions s) @ created_ids (x # xs))"
  shows "distinct (map pos_id (positions (step x s)) @ created_ids xs)"
  using step_ids[of x s]
proof (elim disjE exE conjE)
  assume same: "map pos_id (positions (step x s)) = map pos_id (positions s)"
  have "distinct (map pos_id (positions s) @ created_ids xs)"
    using assms by (cases x) simp_all
  with same show ?thesis by simp
next
  fix m t inp
  assume x: "x = Create m t inp"
    and ids: "map pos_id (positions (step x s)) = map pos_id (positions s) @ [m]"
  from assms[unfolded x] show ?thesis unfolding ids by simp
next
  fix j
  assume x: "x = Delete j"
    and del: "positions (step x s) = delete_row (\<lambda>q. pos_id q = j) (positions s)"
  from assms have all: "distinct (map pos_id (positions s) @ created_ids xs)"
    unfolding x by simp
  then have d: "distinct (map pos_id (positions s))" by simp
  show ?thesis
    unfolding del
    by (rule distinct_shrink[OF all distinct_ids_delete_row[OF d] ids_delete_row_subset])
qed


subsection \<open>sequences\<close>

lemma transitions_trace:
  "transitions (a # trace i s xs) =
     (if a = Some OPEN \<and> status_of i s = Some CLOSED then 1 else 0) + transitions (trace i s xs)"
  by (cases xs) simp_all

lemma distinct_append_notin: "distinct (a @ b) \<Longrightarrow> x \<in> set a \<Longrightarrow> x \<notin> set b"
  by auto

lemma created_ids_Cons:
  "i \<notin> set (created_ids (x # xs)) \<Longrightarrow> i \<notin> set (created_ids [x]) \<and> i \<notin> set (created_ids xs)"
  by (cases x) simp_all

lemma settled_no_transition:
  assumes "distinct (map pos_id (positions s) @ created_ids ops)"
    and "status_of i s = Some CLOSED \<or> status_of i s = None"
    and "i \<notin> set (created_ids ops)"
  shows "transitions (trace i s ops) = 0 \<and>
         (status_of i (run s ops) = Some CLOSED \<or> status_of i (run s ops) = None)"
  using assms
proof (induction ops arbitrary: s)
  case Nil
  then show ?case by simp
next
  case (Cons x xs)
  from Cons.prems(1) have d: "distinct (map pos_id (positions s))" by simp
  have next_d: "distinct (map pos_id (positions (step x s)) @ created_ids xs)"
    using Cons.prems(1) by (rule step_distinct)
  from created_ids_Cons[OF Cons.prems(3)]
  have fresh1: "i \<notin> set (created_ids [x])" and fresh2: "i \<notin> set (created_ids xs)"
    by simp_all
  from Cons.prems(2)
  have next_st: "status_of i (step x s) = Some CLOSED \<or> status_of i (step x s) = None"
  proof
    assume "status_of i s = Some CLOSED"
    then show ?thesis by (rule step_closed[OF d])
  next
    assume "status_of i s = None"
    then have "status_of i (step x s) = None" using fresh1 by (rule step_absent)
    then show ?thesis by simp
  qed
  from Cons.prems(2) have not_open: "status_of i s \<noteq> Some OPEN"
    by (rule disjE) simp_all
  have IH: "transitions (trace i (step x s) xs) = 0 \<and>
    (status_of i (run (step x s) xs) = Some CLOSED \<or> status_of i (run (step x s) xs) = None)"
    using next_d next_st fresh2 by (rule Cons.IH)
  from IH not_open show ?case by (simp add: transitions_trace)
qed


lemma status_known_id: "status_of i s = Some st \<Longrightarrow> i \<in> set (map pos_id (positions s))"
  using row_status_None[of i "positions s"] by (simp add: status_of_row_status)

lemma at_most_one_transition:
  assumes "distinct (map pos_id (positions s) @ created_ids ops)"
  shows "transitions (trace i s ops) \<le> 1"
  using assms
proof (induction ops arbitrary: s)
  case Nil
  then show ?case by simp
next
  case (Cons x xs)
  have next_d: "distinct (map pos_id (positions (step x s)) @ created_ids xs)"
    using Cons.prems by (rule step_distinct)
  show ?case
  proof (cases "status_of i (step x s) = Some CLOSED")
    case True
    then have "i \<in> set (map pos_id (positions (step x s)))" by (rule status_known_id)
    with next_d have fresh: "i \<notin> set (created_ids xs)" by (rule distinct_append_notin)
    from True have "status_of i (step x s) = Some CLOSED \<or> status_of i (step x s) = None"
      by simp
    with next_d have "transitions (trace i (step x s) xs) = 0 \<and>
       (status_of i (run (step x s) xs) = Some CLOSED \<or> status_of i (run (step x s) xs) = None)"
      using fresh by (rule settled_no_transition)
    then show ?thesis by (simp add: transitions_trace)
  next
    case False
    have "transitions (trace i (step x s) xs) \<le> 1" using next_d by (rule Cons.IH)
    with False show ?thesis by (simp add: transitions_trace)
  qed
qed

text \<open>
  C4. Along every sequence of \<open>create\<close>, \<open>close\<close>, \<open>update\<close> and \<open>delete\<close>
  operations, the status of a position goes from \<open>OPEN\<close> to \<open>CLOSED\<close> at most once;
  a position that is \<open>CLOSED\<close> stays \<open>CLOSED\<close> for as long as it exists, and a close
  of it fails. Identifiers are the keys of the table: the positions have distinct
  identifiers and the identifiers generated for new positions have not been used before.
\<close>

theorem closed_is_terminal:
  assumes "distinct (map pos_id (positions s) @ created_ids ops)"
  shows "transitions (trace i s ops) \<le> 1
       \<and> (status_of i s = Some CLOSED \<longrightarrow>
            status_of i (run s ops) = Some CLOSED \<or> status_of i (run s ops) = None)
       \<and> (status_of i s = Some CLOSED \<and> ClosePositionSchema c \<and> cl_positionId c = i \<longrightarrow>
            position_close t c s = (Inl (Error ''Position is not open''), s))"
proof (intro conjI impI)
  show "transitions (trace i s ops) \<le> 1"
    using assms by (rule at_most_one_transition)
next
  assume closed: "status_of i s = Some CLOSED"
  then have "i \<in> set (map pos_id (positions s))" by (rule status_known_id)
  with assms have fresh: "i \<notin> set (created_ids ops)" by (rule distinct_append_notin)
  from closed have "status_of i s = Some CLOSED \<or> status_of i s = None" by simp
  with assms have "transitions (trace i s ops) = 0 \<and>
         (status_of i (run s ops) = Some CLOSED \<or> status_of i (run s ops) = None)"
    using fresh by (rule settled_no_transition)
  then show "status_of i (run s ops) = Some CLOSED \<or> status_of i (run s ops) = None" by simp
next
  assume a: "status_of i s = Some CLOSED \<and> ClosePositionSchema c \<and> cl_positionId c = i"
  then obtain p where "findUnique (\<lambda>q. pos_id q = cl_positionId c) (positions s) = Some p"
    and "pos_status p = CLOSED"
    by (auto simp: status_of_def)
  with a show "position_close t c s = (Inl (Error ''Position is not open''), s)"
    by (simp add: position_close_def procedure_def position_close_handler_def Let_def)
qed

text \<open>The example history, and the closed position of the example.\<close>

theorem closed_is_terminal_witness:
  "distinct (map pos_id (positions market_store) @ created_ids example_history)
   \<and> trace ''cposition1'' market_store example_history =
       [None, Some OPEN, Some OPEN, Some CLOSED, Some CLOSED, Some CLOSED]
   \<and> transitions (trace ''cposition1'' market_store example_history) \<le> 1
   \<and> distinct (map pos_id (positions closed_store) @ created_ids [Delete ''cposition1'', Update example_update])
   \<and> status_of ''cposition1'' closed_store = Some CLOSED
   \<and> (status_of ''cposition1'' (run closed_store [Delete ''cposition1'', Update example_update]) = Some CLOSED
       \<or> status_of ''cposition1'' (run closed_store [Delete ''cposition1'', Update example_update]) = None)
   \<and> position_close ''ctransact9'' example_close closed_store =
       (Inl (Error ''Position is not open''), closed_store)"
proof -
  have fresh: "distinct (map pos_id (positions market_store) @ created_ids example_history)"
    by (simp add: market_store_def example_history_def)
  have keys: "distinct (map pos_id (positions closed_store) @
      created_ids [Delete ''cposition1'', Update example_update])"
    by (simp add: closed_store_def closed_position_def idle_position_def example_position_def)
  have closed: "status_of ''cposition1'' closed_store = Some CLOSED"
    by (simp add: status_of_def findUnique_def closed_store_def closed_position_def
        example_position_def)
  have target: "cl_positionId example_close = ''cposition1''"
    by (simp add: example_close_def)
  note once = closed_is_terminal[OF fresh, of "''cposition1''", THEN conjunct1]
  note terminal = closed_is_terminal[OF keys, of "''cposition1''" example_close "''ctransact9''"]
  have stays: "status_of ''cposition1'' (run closed_store [Delete ''cposition1'', Update example_update]) = Some CLOSED
       \<or> status_of ''cposition1'' (run closed_store [Delete ''cposition1'', Update example_update]) = None"
    using terminal[THEN conjunct2, THEN conjunct1] closed by (rule mp)
  have refused: "position_close ''ctransact9'' example_close closed_store =
       (Inl (Error ''Position is not open''), closed_store)"
    using terminal[THEN conjunct2, THEN conjunct2] closed example_valid(2) target by simp
  have tr: "trace ''cposition1'' market_store example_history =
       [None, Some OPEN, Some OPEN, Some CLOSED, Some CLOSED, Some CLOSED]"
    by (simp add: example_history_def status_of_def findUnique_def
        position_create_def position_close_def position_update_def position_delete_def
        procedure_def example_valid[unfolded example_create_def example_close_def example_update_def]
        example_ids position_create_handler_def position_close_handler_def position_update_handler_def
        position_delete_handler_def position_create_row_def transaction_create_row_def
        position_update_row_def count_where_def Let_def new_position_def new_transaction_def
        market_store_def example_store_def example_create_def example_close_def
        example_update_def withDefault_def merge_def)
  show ?thesis
    by (intro conjI fresh tr once keys closed stays refused)
qed

end
